theory Spec2Isabelle
  imports Complex_Main "HOL-Library.AList"
begin

section \<open>Python values\<close>

text \<open>
  The provider code is dynamically typed: configuration entries, additional request
  parameters, tool arguments and tool results are all \<^verbatim>\<open>Any\<close>. They are modelled by
  one datatype of Python values. A finite Python float is modelled by the real number it
  denotes; the code only compares floats with zero and multiplies a delay by a power of two.
  A \<^verbatim>\<open>dict\<close> with string keys is an association list in insertion order; storing under a
  key that is already there replaces the value in place, which is what
  \<^const>\<open>AList.update\<close> does.
\<close>

datatype pyval =
    PNone
  | PBool bool
  | PInt int
  | PFloat real
  | PStr string
  | PList "pyval list"
  | PDict "(string \<times> pyval) list"

type_synonym pydict = "(string \<times> pyval) list"

text \<open>Truthiness, as \<^verbatim>\<open>if x\<close>, \<^verbatim>\<open>x and y\<close> and \<^verbatim>\<open>x or y\<close> test it.\<close>

fun truthy :: "pyval \<Rightarrow> bool" where
  "truthy PNone = False"
| "truthy (PBool b) = b"
| "truthy (PInt i) = (i \<noteq> 0)"
| "truthy (PFloat r) = (r \<noteq> 0)"
| "truthy (PStr s) = (s \<noteq> [])"
| "truthy (PList xs) = (xs \<noteq> [])"
| "truthy (PDict kvs) = (kvs \<noteq> [])"

definition py_or :: "pyval \<Rightarrow> pyval \<Rightarrow> pyval" where
  "py_or a b = (if truthy a then a else b)"

definition dict_has :: "(string \<times> 'v) list \<Rightarrow> string \<Rightarrow> bool" where
  "dict_has d k = (map_of d k \<noteq> None)"

definition dict_get :: "(string \<times> 'v) list \<Rightarrow> string \<Rightarrow> 'v \<Rightarrow> 'v" where
  "dict_get d k dflt = (case map_of d k of None \<Rightarrow> dflt | Some v \<Rightarrow> v)"

definition dict_set :: "(string \<times> 'v) list \<Rightarrow> string \<Rightarrow> 'v \<Rightarrow> (string \<times> 'v) list" where
  "dict_set d k v = AList.update k v d"

definition dict_keys :: "(string \<times> 'v) list \<Rightarrow> string list" where
  "dict_keys d = map fst d"

text \<open>\<^verbatim>\<open>{**d, **kwargs}\<close>: the entries of \<^verbatim>\<open>kwargs\<close> are stored one after the other.\<close>

definition dict_merge :: "(string \<times> 'v) list \<Rightarrow> (string \<times> 'v) list \<Rightarrow> (string \<times> 'v) list" where
  "dict_merge d kwargs = fold (\<lambda>(k, v) acc. dict_set acc k v) kwargs d"

section \<open>Exceptions\<close>

text \<open>
  Every \<^verbatim>\<open>raise\<close> of the source is a value \<open>Inl e\<close> of the result type. An exception is
  its class and the text \<^verbatim>\<open>str(e)\<close> gives (for the SDK's errors this is also
  \<^verbatim>\<open>e.message\<close>). The classes are those the provider names, with the subclass relation of
  the Anthropic SDK: a rate-limit error is a status error, a timeout is a connection
  error, and everything is an \<^verbatim>\<open>Exception\<close>. What is raised outside that class
  (a cancellation, an interpreter exit) is not an error of the program and is left out.
\<close>

datatype exn_class =
    RateLimitError
  | APITimeoutError
  | APIConnectionError
  | BadRequestError
  | APIStatusError
  | ValueError
  | TypeError
  | KeyError
  | ValidationError
  | Exception

datatype exn = Exn (exn_cls: exn_class) (exn_str: string)

fun issubclass :: "exn_class \<Rightarrow> exn_class \<Rightarrow> bool" where
  "issubclass c Exception = True"
| "issubclass RateLimitError APIStatusError = True"
| "issubclass BadRequestError APIStatusError = True"
| "issubclass APITimeoutError APIConnectionError = True"
| "issubclass c d = (c = d)"

definition isinstance :: "exn \<Rightarrow> exn_class \<Rightarrow> bool" where
  "isinstance e c = issubclass (exn_cls e) c"

section \<open>Requests and responses (app/schemas/ai.py)\<close>

text \<open>
  \<^verbatim>\<open>AIRequestBase\<close>: every field but the capability is optional. A message is a
  \<^verbatim>\<open>Dict[str, str]\<close>.
\<close>

type_synonym message = "(string \<times> string) list"

record AIRequestBase =
  prompt :: "string option"
  messages :: "message list option"
  capability :: string
  temperature :: "real option"
  max_tokens :: "int option"
  additional_params :: "pydict option"

text \<open>
  \<^verbatim>\<open>AIResponse\<close>. The random \<^verbatim>\<open>model_id\<close> and the \<^verbatim>\<open>created_at\<close> timestamp are
  left out: no operation of the provider reads them.
\<close>

record AIResponse =
  content :: string
  model_name :: string
  provider :: string
  usage :: "(string \<times> int) list"
  finish_reason :: string
  total_tokens :: int
  prompt_tokens :: int
  completion_tokens :: int
  is_cached :: bool

section \<open>The base provider (app/providers/base.py)\<close>

text \<open>
  Effects are explicit state passing: an operation takes the state of the world and
  returns its result, or the exception it raised, with the new state.
\<close>

type_synonym ('s, 'a) action = "'s \<Rightarrow> (exn + 'a) \<times> 's"

text \<open>
  A response is an object: the dispatcher sets \<^verbatim>\<open>is_cached\<close> on the object the cache
  hands back, and hands its own caller's response to the cache, so who else holds the
  same object matters. The state therefore has a store of the response objects made so
  far; a reference is an object's position in the store, a new object takes the next
  position, and no object is ever removed. \<open>outside\<close> is the state of everything else
  (the cache collaborator, the remote service). A reference a collaborator hands over
  always refers to an object of the store; the operations leave a reference that does
  not alone.
\<close>

type_synonym ref = nat

record 's memory =
  objects :: "AIResponse list"
  outside :: 's

definition deref :: "'s memory \<Rightarrow> ref \<Rightarrow> AIResponse option" where
  "deref s a = (if a < length (objects s) then Some (objects s ! a) else None)"

definition new_object :: "AIResponse \<Rightarrow> 's memory \<Rightarrow> ref \<times> 's memory" where
  "new_object response s = (length (objects s), s\<lparr>objects := objects s @ [response]\<rparr>)"

text \<open>\<^verbatim>\<open>response.is_cached = flag\<close>, on the object itself.\<close>

definition set_is_cached :: "ref \<Rightarrow> bool \<Rightarrow> 's memory \<Rightarrow> 's memory" where
  "set_is_cached a flag s =
     (if a < length (objects s)
      then s\<lparr>objects := (objects s)[a := (objects s ! a)\<lparr>is_cached := flag\<rparr>]\<rparr>
      else s)"

text \<open>
  The cache collaborator is a pair of operations. It is given a reference to the
  response to keep and gives back a reference (or \<^verbatim>\<open>None\<close>); whether that is the object
  it was given or another one with the same contents is the collaborator's business.
\<close>

record 's cache_service =
  get_cached_response :: "AIRequestBase \<Rightarrow> string \<Rightarrow> ('s, ref option) action"
  cache_response :: "AIRequestBase \<Rightarrow> ref \<Rightarrow> string \<Rightarrow> ('s, unit) action"

record 's BaseAIProvider =
  api_key :: "string option"
  base_url :: "string option"
  model_id :: "string option"
  config :: pydict
  cache_service :: "'s memory cache_service option"
  provider_name :: string

text \<open>\<^verbatim>\<open>request.additional_params and any(k in request.additional_params for k in [...])\<close>\<close>

definition has_non_repeatable_param :: "pydict option \<Rightarrow> bool" where
  "has_non_repeatable_param ap =
     (case ap of
        None \<Rightarrow> False
      | Some d \<Rightarrow> d \<noteq> [] \<and> list_ex (\<lambda>k. dict_has d k) [''stream'', ''user'', ''request_id''])"

definition is_cacheable :: "('s, 'm) BaseAIProvider_scheme \<Rightarrow> AIRequestBase \<Rightarrow> bool" where
  "is_cacheable self request =
     (if (case temperature request of None \<Rightarrow> False | Some t \<Rightarrow> t \<noteq> 0 \<and> t > 0) then False
      else if has_non_repeatable_param (additional_params request) then False
      else if truthy (dict_get (config self) ''disable_caching'' (PBool False)) then False
      else True)"

text \<open>
  The dispatcher. The abstract method a subclass supplies is the parameter \<open>impl\<close>; it
  returns a reference to the response it produced. The two cache steps are the guarded
  blocks of the source: \<open>cache_lookup\<close> is ``check cache if available'', with
  \<open>Inr None\<close> when the cache is not consulted or holds nothing, and \<open>cache_store\<close> is
  ``cache the response if appropriate''. On a hit the flag is set in place on the
  object the cache handed back, and that object is returned. Nothing catches an
  exception here: one raised by the cache collaborator or by \<open>impl\<close> leaves the
  dispatcher.
\<close>

definition cache_lookup ::
  "('s, 'm) BaseAIProvider_scheme \<Rightarrow> AIRequestBase \<Rightarrow> ('s memory, ref option) action" where
  "cache_lookup self request s =
     (case cache_service self of
        None \<Rightarrow> (Inr None, s)
      | Some cs \<Rightarrow>
          if is_cacheable self request
          then get_cached_response cs request (provider_name self) s
          else (Inr None, s))"

definition cache_store ::
  "('s, 'm) BaseAIProvider_scheme \<Rightarrow> AIRequestBase \<Rightarrow> ref \<Rightarrow> ('s memory, unit) action" where
  "cache_store self request response s =
     (case cache_service self of
        None \<Rightarrow> (Inr (), s)
      | Some cs \<Rightarrow>
          if is_cacheable self request
          then cache_response cs request response (provider_name self) s
          else (Inr (), s))"

definition generate_completion ::
  "('s, 'm) BaseAIProvider_scheme \<Rightarrow> (AIRequestBase \<Rightarrow> ('s memory, ref) action) \<Rightarrow>
   AIRequestBase \<Rightarrow> ('s memory, ref) action" where
  "generate_completion self generate_completion_impl request s =
     (case cache_lookup self request s of
        (Inl e, s1) \<Rightarrow> (Inl e, s1)
      | (Inr (Some cached_response), s1) \<Rightarrow>
          (Inr cached_response, set_is_cached cached_response True s1)
      | (Inr None, s1) \<Rightarrow>
          (case generate_completion_impl request s1 of
             (Inl e, s2) \<Rightarrow> (Inl e, s2)
           | (Inr response, s2) \<Rightarrow>
               (case cache_store self request response s2 of
                  (Inl e, s3) \<Rightarrow> (Inl e, s3)
                | (Inr _, s3) \<Rightarrow> (Inr response, s3))))"

definition generate_chat_completion ::
  "('s, 'm) BaseAIProvider_scheme \<Rightarrow> (AIRequestBase \<Rightarrow> ('s memory, ref) action) \<Rightarrow>
   AIRequestBase \<Rightarrow> ('s memory, ref) action" where
  "generate_chat_completion self generate_chat_completion_impl request s =
     (case cache_lookup self request s of
        (Inl e, s1) \<Rightarrow> (Inl e, s1)
      | (Inr (Some cached_response), s1) \<Rightarrow>
          (Inr cached_response, set_is_cached cached_response True s1)
      | (Inr None, s1) \<Rightarrow>
          (case generate_chat_completion_impl request s1 of
             (Inl e, s2) \<Rightarrow> (Inl e, s2)
           | (Inr response, s2) \<Rightarrow>
               (case cache_store self request response s2 of
                  (Inl e, s3) \<Rightarrow> (Inl e, s3)
                | (Inr _, s3) \<Rightarrow> (Inr response, s3))))"

text \<open>
  An implementation that builds its response with the \<^verbatim>\<open>AIResponse\<close> constructor returns
  a new object. \<open>constructing impl\<close> is such a method: \<open>impl\<close> computes the contents of
  the response from the state outside the store, and the response becomes a new object.
\<close>

definition constructing ::
  "(AIRequestBase \<Rightarrow> ('s, AIResponse) action) \<Rightarrow> AIRequestBase \<Rightarrow> ('s memory, ref) action" where
  "constructing impl request s =
     (case impl request (outside s) of
        (Inl e, t) \<Rightarrow> (Inl e, s\<lparr>outside := t\<rparr>)
      | (Inr response, t) \<Rightarrow>
          (case new_object response (s\<lparr>outside := t\<rparr>) of (a, s') \<Rightarrow> (Inr a, s')))"

section \<open>The Anthropic provider (app/providers/anthropic.py)\<close>

subsection \<open>State and data\<close>

text \<open>
  The state the provider's operations run in: the state of the remote service (and of
  anything else outside, such as a cache), and the waits \<^verbatim>\<open>asyncio.sleep\<close> was asked
  for, oldest first.
\<close>

record 'w io =
  world :: 'w
  slept :: "real list"

text \<open>
  The reply of the Messages API, as far as the provider reads it. A content block is a
  \<^verbatim>\<open>TextBlock\<close> or some other block, which may or may not have a \<^verbatim>\<open>text\<close> attribute.
\<close>

datatype content_block = TextBlock string | OtherBlock "string option"

record anthropic_message =
  message_content :: "content_block list"
  input_tokens :: int
  output_tokens :: int
  stop_reason :: "string option"

text \<open>
  A tool definition is a dict that holds the tool's name, a string, under \<^verbatim>\<open>"name"\<close>;
  \<open>tool_entries\<close> are its other entries. A handler receives the tool input as keyword
  arguments and returns a value or raises.
\<close>

record tool_definition =
  tool_name :: string
  tool_entries :: pydict

type_synonym tool_handler = "pydict \<Rightarrow> exn + pyval"

text \<open>
  \<^verbatim>\<open>request_params\<close>, the keyword arguments of \<^verbatim>\<open>client.messages.create\<close>. The keys
  that are only set under a condition are optional fields.
\<close>

record request_params =
  rp_model :: "string option"
  rp_max_tokens :: pyval
  rp_messages :: "pydict list"
  rp_temperature :: "pyval option"
  rp_system :: "string option"
  rp_tools :: "tool_definition list option"
  rp_thinking :: "pyval option"

text \<open>
  The provider object: the base attributes, the retry configuration, the tool registry
  and the SDK client, whose \<^verbatim>\<open>messages.create\<close> is an operation on the remote state.
\<close>

record 'w AnthropicProvider = "('w io) BaseAIProvider" +
  user_id :: "string option"
  client :: "request_params \<Rightarrow> ('w, anthropic_message) action"
  max_retries :: int
  retry_delay :: real
  tools :: "tool_definition list"
  tool_handlers :: "(string \<times> tool_handler) list"

subsection \<open>Tool registry\<close>

definition register_tool ::
  "'w AnthropicProvider \<Rightarrow> tool_definition \<Rightarrow> tool_handler \<Rightarrow> 'w AnthropicProvider" where
  "register_tool self tool_def handler =
     self\<lparr>tools := tools self @ [tool_def],
          tool_handlers := dict_set (tool_handlers self) (tool_name tool_def) handler\<rparr>"

text \<open>
  The \<^verbatim>\<open>try\<close> block covers the lookup and the call of the handler;
  \<^verbatim>\<open>except Exception\<close> turns what they raise into a result.
\<close>

definition execute_tool :: "'w AnthropicProvider \<Rightarrow> string \<Rightarrow> pydict \<Rightarrow> exn + pydict" where
  "execute_tool self name tool_input =
     (if \<not> dict_has (tool_handlers self) name then
        Inr [(''error'', PStr (''Tool '' @ [CHR 0x27] @ name @ [CHR 0x27] @ '' not found'')),
             (''available_tools'', PList (map PStr (dict_keys (tool_handlers self))))]
      else
        (case (case map_of (tool_handlers self) name of
                 None \<Rightarrow> Inl (Exn KeyError ([CHR 0x27] @ name @ [CHR 0x27]))
               | Some handler \<Rightarrow> handler tool_input) of
           Inr result \<Rightarrow> Inr [(''success'', PBool True), (''result'', result)]
         | Inl e \<Rightarrow>
             if isinstance e Exception
             then Inr [(''error'', PStr (exn_str e)), (''success'', PBool False)]
             else Inl e))"

subsection \<open>Retry with exponential backoff\<close>

text \<open>
  The body the three retryable \<^verbatim>\<open>except\<close> clauses share (they differ in the text they
  log): before the last attempt, wait \<^verbatim>\<open>retry_delay * 2 ** attempt\<close>.
\<close>

definition backoff :: "'w AnthropicProvider \<Rightarrow> nat \<Rightarrow> 'w io \<Rightarrow> 'w io" where
  "backoff self attempt s =
     (if int attempt < max_retries self - 1
      then s\<lparr>slept := slept s @ [retry_delay self * 2 ^ attempt]\<rparr>
      else s)"

text \<open>
  The \<^verbatim>\<open>for attempt in range(self.max_retries)\<close> loop, over the attempts still to make.
  When the loop ends without a return, \<^verbatim>\<open>raise last_exception\<close> raises the exception
  kept, and a \<^verbatim>\<open>TypeError\<close> when none was kept.
\<close>

fun retry_loop ::
  "'w AnthropicProvider \<Rightarrow> ('w, 'a) action \<Rightarrow> nat list \<Rightarrow> exn option \<Rightarrow> ('w io, 'a) action" where
  "retry_loop self func [] last_exception s =
     (case last_exception of
        None \<Rightarrow> (Inl (Exn TypeError ''exceptions must derive from BaseException''), s)
      | Some e \<Rightarrow> (Inl e, s))"
| "retry_loop self func (attempt # rest) last_exception s =
     (case func (world s) of
        (Inr result, w) \<Rightarrow> (Inr result, s\<lparr>world := w\<rparr>)
      | (Inl e, w) \<Rightarrow>
          if isinstance e RateLimitError then
            retry_loop self func rest (Some e) (backoff self attempt (s\<lparr>world := w\<rparr>))
          else if isinstance e APITimeoutError then
            retry_loop self func rest (Some e) (backoff self attempt (s\<lparr>world := w\<rparr>))
          else if isinstance e APIConnectionError then
            retry_loop self func rest (Some e) (backoff self attempt (s\<lparr>world := w\<rparr>))
          else (Inl e, s\<lparr>world := w\<rparr>))"

definition retry_with_backoff ::
  "'w AnthropicProvider \<Rightarrow> ('w, 'a) action \<Rightarrow> ('w io, 'a) action" where
  "retry_with_backoff self func s = retry_loop self func [0..<nat (max_retries self)] None s"

subsection \<open>The remote call\<close>

definition str_truthy :: "string option \<Rightarrow> bool" where
  "str_truthy x = (case x of None \<Rightarrow> False | Some v \<Rightarrow> v \<noteq> [])"

text \<open>
  The block ``prepare request parameters'' of \<^verbatim>\<open>_create_message_with_tools\<close>: the token
  bound is the argument or, when that is not true, the configured value or 4096; the
  temperature is the argument unless it is \<^verbatim>\<open>None\<close>, then the configured value when the
  configuration has one.
\<close>

definition prepare_request_params ::
  "'w AnthropicProvider \<Rightarrow> pydict list \<Rightarrow> string option \<Rightarrow> pyval \<Rightarrow> pyval \<Rightarrow> string option \<Rightarrow>
   tool_definition list option \<Rightarrow> pyval \<Rightarrow> request_params" where
  "prepare_request_params self msgs model max_toks temp system tls thinking =
     \<lparr>rp_model = (if str_truthy model then model else model_id self),
      rp_max_tokens = py_or max_toks (dict_get (config self) ''max_tokens'' (PInt 4096)),
      rp_messages = msgs,
      rp_temperature =
        (if temp \<noteq> PNone then Some temp
         else if dict_has (config self) ''temperature''
         then map_of (config self) ''temperature''
         else None),
      rp_system = (if str_truthy system then system else None),
      rp_tools = (case tls of None \<Rightarrow> None | Some ts \<Rightarrow> if ts \<noteq> [] then Some ts else None),
      rp_thinking = (if truthy thinking then Some thinking else None)\<rparr>"

text \<open>
  The call itself: no API key is an error before any request; the request goes through
  the retry; a status error that comes out is raised again as a \<^verbatim>\<open>ValueError\<close>, any
  other exception as a plain \<^verbatim>\<open>Exception\<close>.
\<close>

definition create_message_with_tools ::
  "'w AnthropicProvider \<Rightarrow> pydict list \<Rightarrow> string option \<Rightarrow> pyval \<Rightarrow> pyval \<Rightarrow> string option \<Rightarrow>
   tool_definition list option \<Rightarrow> pyval \<Rightarrow> ('w io, anthropic_message) action" where
  "create_message_with_tools self msgs model max_toks temp system tls thinking s =
     (if \<not> str_truthy (api_key self) then
        (Inl (Exn ValueError
           ''API key not provided. Please set ANTHROPIC_API_KEY environment variable.''), s)
      else
        let params = prepare_request_params self msgs model max_toks temp system tls thinking
        in case retry_with_backoff self (client self params) s of
             (Inr response, s') \<Rightarrow> (Inr response, s')
           | (Inl e, s') \<Rightarrow>
               if isinstance e APIStatusError then
                 (Inl (Exn ValueError (''Anthropic API error: '' @ exn_str e)), s')
               else if isinstance e Exception then
                 (Inl (Exn Exception (''Failed to call Anthropic API: '' @ exn_str e)), s')
               else (Inl e, s'))"

subsection \<open>Formatting requests and replies\<close>

fun format_loop :: "message list \<Rightarrow> pydict list \<Rightarrow> pydict list" where
  "format_loop [] acc = acc"
| "format_loop (msg # rest) acc =
     (let role = dict_get msg ''role'' ''user'' in
      if role = ''system'' then format_loop rest acc
      else
        let role = (if role \<in> set [''human'', ''user''] then ''user''
                    else if role = ''assistant'' then ''assistant''
                    else role)
        in format_loop rest
             (acc @ [[(''role'', PStr role), (''content'', PStr (dict_get msg ''content'' ''''))]]))"

definition opt_str :: "string option \<Rightarrow> pyval" where
  "opt_str x = (case x of None \<Rightarrow> PNone | Some v \<Rightarrow> PStr v)"

definition format_messages :: "AIRequestBase \<Rightarrow> pydict list" where
  "format_messages request =
     (case messages request of
        None \<Rightarrow> [[(''role'', PStr ''user''), (''content'', opt_str (prompt request))]]
      | Some ms \<Rightarrow>
          if ms \<noteq> [] then format_loop ms []
          else [[(''role'', PStr ''user''), (''content'', opt_str (prompt request))]])"

fun first_system :: "message list \<Rightarrow> string option" where
  "first_system [] = None"
| "first_system (msg # rest) =
     (if map_of msg ''role'' = Some ''system'' then Some (dict_get msg ''content'' '''')
      else first_system rest)"

definition extract_system_message :: "AIRequestBase \<Rightarrow> string option" where
  "extract_system_message request =
     (case messages request of
        None \<Rightarrow> None
      | Some ms \<Rightarrow> if ms = [] then None else first_system ms)"

fun text_parts :: "content_block list \<Rightarrow> string list" where
  "text_parts [] = []"
| "text_parts (TextBlock t # rest) = t # text_parts rest"
| "text_parts (OtherBlock (Some t) # rest) = t # text_parts rest"
| "text_parts (OtherBlock None # rest) = text_parts rest"

definition extract_text_content :: "content_block list \<Rightarrow> string" where
  "extract_text_content blocks = concat (text_parts blocks)"

subsection \<open>Generation\<close>

text \<open>
  \<^verbatim>\<open>request.additional_params.get(key) if request.additional_params else None\<close>
\<close>

definition additional_param :: "AIRequestBase \<Rightarrow> string \<Rightarrow> pyval" where
  "additional_param request key =
     (case additional_params request of
        None \<Rightarrow> PNone
      | Some d \<Rightarrow> if d \<noteq> [] then dict_get d key PNone else PNone)"

text \<open>
  The extended-thinking directive: the entry under \<^verbatim>\<open>"thinking"\<close> when the additional
  parameters have one, \<^verbatim>\<open>None\<close> otherwise.
\<close>

definition thinking_param :: "AIRequestBase \<Rightarrow> pyval" where
  "thinking_param request =
     (case additional_params request of
        None \<Rightarrow> PNone
      | Some d \<Rightarrow> if d \<noteq> [] \<and> dict_has d ''thinking'' then dict_get d ''thinking'' PNone else PNone)"

text \<open>
  The two implementations build their \<^verbatim>\<open>AIResponse\<close> by the same code. The total is
  the sum of the two counters of the reply. \<^verbatim>\<open>model_name\<close> is a required string, so
  the constructor rejects a provider whose \<^verbatim>\<open>model_id\<close> is \<^verbatim>\<open>None\<close>.
\<close>

definition build_response :: "'w AnthropicProvider \<Rightarrow> anthropic_message \<Rightarrow> exn + AIResponse" where
  "build_response self response =
     (let text = extract_text_content (message_content response);
          inp = input_tokens response;
          outp = output_tokens response;
          total = inp + outp
      in case model_id self of
           None \<Rightarrow> Inl (Exn ValidationError ''1 validation error for AIResponse'')
         | Some name \<Rightarrow>
             Inr \<lparr>content = text,
                  model_name = name,
                  provider = ''anthropic'',
                  usage = [(''prompt_tokens'', inp), (''completion_tokens'', outp),
                           (''total_tokens'', total)],
                  finish_reason =
                    (case stop_reason response of
                       None \<Rightarrow> ''stop''
                     | Some r \<Rightarrow> if r \<noteq> [] then r else ''stop''),
                  total_tokens = total,
                  prompt_tokens = inp,
                  completion_tokens = outp,
                  is_cached = False\<rparr>)"

definition generate_completion_impl ::
  "'w AnthropicProvider \<Rightarrow> AIRequestBase \<Rightarrow> ('w io, AIResponse) action" where
  "generate_completion_impl self request s =
     (let msgs = [[(''role'', PStr ''user''), (''content'', opt_str (prompt request))]];
          max_toks = additional_param request ''max_tokens'';
          max_toks = py_or max_toks (dict_get (config self) ''max_tokens'' (PInt 4096));
          temp = additional_param request ''temperature'';
          temp = (if temp \<noteq> PNone then temp
                  else dict_get (config self) ''temperature'' (PFloat (7 / 10)));
          thinking = thinking_param request
      in case create_message_with_tools self msgs None max_toks temp None None thinking s of
           (Inl e, s') \<Rightarrow> (Inl e, s')
         | (Inr response, s') \<Rightarrow> (build_response self response, s'))"

definition generate_chat_completion_impl ::
  "'w AnthropicProvider \<Rightarrow> AIRequestBase \<Rightarrow> ('w io, AIResponse) action" where
  "generate_chat_completion_impl self request s =
     (let msgs = format_messages request;
          system = extract_system_message request;
          max_toks = additional_param request ''max_tokens'';
          max_toks = py_or max_toks (dict_get (config self) ''max_tokens'' (PInt 4096));
          temp = additional_param request ''temperature'';
          temp = (if temp \<noteq> PNone then temp
                  else dict_get (config self) ''temperature'' (PFloat (7 / 10)));
          thinking = thinking_param request
      in case create_message_with_tools self msgs None max_toks temp system None thinking s of
           (Inl e, s') \<Rightarrow> (Inl e, s')
         | (Inr response, s') \<Rightarrow> (build_response self response, s'))"

text \<open>Placeholder embeddings and the token estimate.\<close>

definition generate_embeddings :: "string list \<Rightarrow> real list list" where
  "generate_embeddings texts = map (\<lambda>_. replicate 64 (1 / 10)) texts"

definition get_token_count :: "string \<Rightarrow> int" where
  "get_token_count text = int (length text) div 4"

text \<open>
  The convenience method. The request it builds carries the token bound and the
  temperature in the additional parameters; its own \<^verbatim>\<open>temperature\<close> and
  \<^verbatim>\<open>max_tokens\<close> fields keep their default \<^verbatim>\<open>None\<close>. The keyword arguments \<open>kwargs\<close> are
  those Python did not bind to \<^verbatim>\<open>prompt\<close>, \<^verbatim>\<open>max_tokens\<close> or \<^verbatim>\<open>temperature\<close>. The
  request goes through the dispatcher, with \<^verbatim>\<open>_generate_completion_impl\<close> as the method
  that builds the response, and the content of the response returned is the result.
\<close>

definition generate_request :: "string \<Rightarrow> int option \<Rightarrow> real \<Rightarrow> pydict \<Rightarrow> AIRequestBase" where
  "generate_request prompt_text max_toks temp kwargs =
     \<lparr>prompt = Some prompt_text,
      messages = None,
      capability = ''completion'',
      temperature = None,
      max_tokens = None,
      additional_params = Some (dict_merge
        [(''max_tokens'', PInt (case max_toks of None \<Rightarrow> 2048 | Some n \<Rightarrow> if n \<noteq> 0 then n else 2048)),
         (''temperature'', PFloat temp)]
        kwargs)\<rparr>"

definition generate ::
  "'w AnthropicProvider \<Rightarrow> string \<Rightarrow> int option \<Rightarrow> real \<Rightarrow> pydict \<Rightarrow>
   ('w io memory, string) action" where
  "generate self prompt_text max_toks temp kwargs s =
     (case generate_completion self (constructing (generate_completion_impl self))
             (generate_request prompt_text max_toks temp kwargs) s of
        (Inl e, s') \<Rightarrow> (Inl e, s')
      | (Inr response, s') \<Rightarrow>
          (Inr (case deref s' response of Some r \<Rightarrow> content r | None \<Rightarrow> ''''), s'))"

subsection \<open>What the implementations send and raise\<close>

text \<open>
  The request parameters the two implementations hand to the remote call: the arguments
  each of them computes, passed through \<open>prepare_request_params\<close> as
  \<open>create_message_with_tools\<close> does.
\<close>

definition completion_request_params :: "'w AnthropicProvider \<Rightarrow> AIRequestBase \<Rightarrow> request_params" where
  "completion_request_params self request =
     prepare_request_params self
       [[(''role'', PStr ''user''), (''content'', opt_str (prompt request))]]
       None
       (py_or (additional_param request ''max_tokens'')
          (dict_get (config self) ''max_tokens'' (PInt 4096)))
       (if additional_param request ''temperature'' \<noteq> PNone
        then additional_param request ''temperature''
        else dict_get (config self) ''temperature'' (PFloat (7 / 10)))
       None None (thinking_param request)"

definition chat_request_params :: "'w AnthropicProvider \<Rightarrow> AIRequestBase \<Rightarrow> request_params" where
  "chat_request_params self request =
     prepare_request_params self
       (format_messages request)
       None
       (py_or (additional_param request ''max_tokens'')
          (dict_get (config self) ''max_tokens'' (PInt 4096)))
       (if additional_param request ''temperature'' \<noteq> PNone
        then additional_param request ''temperature''
        else dict_get (config self) ''temperature'' (PFloat (7 / 10)))
       (extract_system_message request) None (thinking_param request)"

text \<open>What the \<^verbatim>\<open>except\<close> clauses around the retried call raise in place of \<open>e\<close>.\<close>

definition reraised :: "exn \<Rightarrow> exn" where
  "reraised e =
     (if isinstance e APIStatusError then Exn ValueError (''Anthropic API error: '' @ exn_str e)
      else Exn Exception (''Failed to call Anthropic API: '' @ exn_str e))"

section \<open>Observing calls\<close>

text \<open>
  What a test reads from a mock: \<open>counted f\<close> runs \<open>f\<close> and counts the invocation,
  and \<open>logged f\<close> keeps the arguments of every invocation, oldest first. \<open>world_after f k w\<close> is the state after \<open>k\<close>
  invocations of \<open>f\<close> from \<open>w\<close>, and \<open>outcome f k w\<close> is what invocation \<open>k + 1\<close> returns
  or raises.
\<close>

definition counted :: "('s, 'a) action \<Rightarrow> ('s \<times> nat, 'a) action" where
  "counted f = (\<lambda>(s, n). case f s of (r, s') \<Rightarrow> (r, (s', Suc n)))"

definition logged :: "('p \<Rightarrow> ('s, 'a) action) \<Rightarrow> 'p \<Rightarrow> ('s \<times> 'p list, 'a) action" where
  "logged f = (\<lambda>p (s, sent). case f p s of (r, s') \<Rightarrow> (r, (s', sent @ [p])))"

fun world_after :: "('s, 'a) action \<Rightarrow> nat \<Rightarrow> 's \<Rightarrow> 's" where
  "world_after f 0 w = w"
| "world_after f (Suc k) w = world_after f k (snd (f w))"

definition outcome :: "('s, 'a) action \<Rightarrow> nat \<Rightarrow> 's \<Rightarrow> exn + 'a" where
  "outcome f k w = fst (f (world_after f k w))"

text \<open>
  A state with a store next to an invocation counter, and a cache collaborator whose two
  operations run next to the counter and leave it alone.
\<close>

definition with_counter :: "'s memory \<Rightarrow> nat \<Rightarrow> ('s \<times> nat) memory" where
  "with_counter s n = \<lparr>objects = objects s, outside = (outside s, n)\<rparr>"

definition without_counter :: "('s \<times> nat) memory \<Rightarrow> 's memory" where
  "without_counter s = \<lparr>objects = objects s, outside = fst (outside s)\<rparr>"

definition beside_counter :: "'s memory cache_service \<Rightarrow> ('s \<times> nat) memory cache_service" where
  "beside_counter cs =
     \<lparr>get_cached_response = (\<lambda>request name s.
        case get_cached_response cs request name (without_counter s) of
          (r, s') \<Rightarrow> (r, with_counter s' (snd (outside s)))),
      cache_response = (\<lambda>request response name s.
        case cache_response cs request response name (without_counter s) of
          (r, s') \<Rightarrow> (r, with_counter s' (snd (outside s))))\<rparr>"

section \<open>Vocabulary of the specification\<close>

text \<open>
  The words the specification uses about a request and a configuration: the request's
  additional parameters contain a key; the configuration disables caching, that is, it
  has a true value under \<^verbatim>\<open>"disable_caching"\<close>.
\<close>

definition has_param :: "AIRequestBase \<Rightarrow> string \<Rightarrow> bool" where
  "has_param request k =
     (case additional_params request of None \<Rightarrow> False | Some d \<Rightarrow> k \<in> fst ` set d)"

definition caching_disabled :: "('s, 'm) BaseAIProvider_scheme \<Rightarrow> bool" where
  "caching_disabled self =
     (case map_of (config self) ''disable_caching'' of None \<Rightarrow> False | Some v \<Rightarrow> truthy v)"

text \<open>
  The words the specification uses about a message: its role (a message without one
  counts as a user message), its content, whether it is tagged \<^verbatim>\<open>system\<close>, and the
  provider-facing message that carries a given role and content.
\<close>

definition role_of :: "message \<Rightarrow> string" where
  "role_of msg = (case map_of msg ''role'' of None \<Rightarrow> ''user'' | Some r \<Rightarrow> r)"

definition content_of :: "message \<Rightarrow> string" where
  "content_of msg = (case map_of msg ''content'' of None \<Rightarrow> '''' | Some c \<Rightarrow> c)"

definition is_system :: "message \<Rightarrow> bool" where
  "is_system msg = (role_of msg = ''system'')"

definition provider_message :: "string \<Rightarrow> pyval \<Rightarrow> pydict" where
  "provider_message role body = [(''role'', PStr role), (''content'', body)]"

definition passed_on :: "message \<Rightarrow> pydict" where
  "passed_on msg =
     provider_message (if role_of msg = ''human'' then ''user'' else role_of msg)
       (PStr (content_of msg))"

text \<open>
  The words the specification uses about the outcome of a remote call: an error is
  transient (retryable) when it is a rate-limit rejection, a timeout or a connection
  failure; an outcome ends the retrying when it is a result or an error that is not
  transient.
\<close>

definition retryable :: "exn \<Rightarrow> bool" where
  "retryable e =
     (exn_cls e = RateLimitError \<or> exn_cls e = APITimeoutError \<or> exn_cls e = APIConnectionError)"

definition final :: "exn + 'a \<Rightarrow> bool" where
  "final r = (case r of Inr _ \<Rightarrow> True | Inl e \<Rightarrow> \<not> retryable e)"

text \<open>
  The words the specification uses about generation parameters: the value a request
  gives explicitly under a key of its additional parameters.
\<close>

definition request_param :: "AIRequestBase \<Rightarrow> string \<Rightarrow> pyval option" where
  "request_param request key =
     (case additional_params request of None \<Rightarrow> None | Some d \<Rightarrow> map_of d key)"

text \<open>
  Resolution by precedence: the explicit value when there is one, otherwise the
  configured value when there is one, otherwise the hard-coded default.
\<close>

definition by_precedence :: "pyval option \<Rightarrow> pyval option \<Rightarrow> pyval \<Rightarrow> pyval" where
  "by_precedence explicit configured hard_coded =
     (case explicit of
        Some v \<Rightarrow> v
      | None \<Rightarrow> (case configured of Some c \<Rightarrow> c | None \<Rightarrow> hard_coded))"

section \<open>Fixtures\<close>

text \<open>
  The provider and the requests of \<^verbatim>\<open>tests/providers/test_base_provider.py\<close>.
\<close>

definition test_provider :: "unit BaseAIProvider" where
  "test_provider =
     \<lparr>api_key = Some ''test'', base_url = None, model_id = None, config = [],
      cache_service = None, provider_name = ''anthropic''\<rparr>"

definition test_request :: "real option \<Rightarrow> pydict option \<Rightarrow> AIRequestBase" where
  "test_request temp params =
     \<lparr>prompt = Some ''test'', messages = None, capability = ''completion'',
      temperature = temp, max_tokens = None, additional_params = params\<rparr>"

text \<open>
  The provider and the mocked client of \<^verbatim>\<open>tests/providers/test_anthropic_provider.py\<close>.
  The remote state of the mock is the list of replies it still has to give, as the
  \<^verbatim>\<open>side_effect\<close> list of an \<^verbatim>\<open>AsyncMock\<close>; an exhausted mock raises.
\<close>

definition mock_create :: "request_params \<Rightarrow> ((exn + anthropic_message) list, anthropic_message) action" where
  "mock_create params w =
     (case w of
        [] \<Rightarrow> (Inl (Exn Exception ''''), [])
      | reply # rest \<Rightarrow> (reply, rest))"

definition provider_with_client ::
  "(request_params \<Rightarrow> ('w, anthropic_message) action) \<Rightarrow> 'w AnthropicProvider" where
  "provider_with_client create =
     \<lparr>api_key = Some ''sk-ant-test123'', base_url = None, model_id = Some ''claude-sonnet-4-5'',
      config = [], cache_service = None, provider_name = ''anthropic'',
      user_id = None, client = create, max_retries = 3, retry_delay = 1,
      tools = [], tool_handlers = []\<rparr>"

definition anthropic_provider :: "(exn + anthropic_message) list AnthropicProvider" where
  "anthropic_provider = provider_with_client mock_create"

text \<open>The same provider with a client whose invocations are counted.\<close>

definition counting_provider :: "((exn + anthropic_message) list \<times> nat) AnthropicProvider" where
  "counting_provider = provider_with_client (\<lambda>params. counted (mock_create params))"

text \<open>The tools of the tests: a calculator on integers and a tool that always fails.\<close>

definition calculator_tool :: tool_handler where
  "calculator_tool kwargs =
     (case (map_of kwargs ''operation'', map_of kwargs ''a'', map_of kwargs ''b'') of
        (Some operation, Some (PInt a), Some (PInt b)) \<Rightarrow>
          if length kwargs \<noteq> 3 then Inl (Exn TypeError ''got an unexpected keyword argument'')
          else if operation = PStr ''add'' then Inr (PInt (a + b))
          else Inr (PInt 0)
      | _ \<Rightarrow> Inl (Exn TypeError ''missing or ill-typed argument''))"

definition failing_tool :: tool_handler where
  "failing_tool kwargs = Inl (Exn ValueError ''Tool failed'')"

definition calculator_definition :: tool_definition where
  "calculator_definition =
     \<lparr>tool_name = ''calculator'', tool_entries = [(''description'', PStr ''Calculator'')]\<rparr>"

definition failing_definition :: tool_definition where
  "failing_definition =
     \<lparr>tool_name = ''failing_tool'', tool_entries = [(''description'', PStr ''Fails'')]\<rparr>"

definition provider_with_tools :: "(exn + anthropic_message) list AnthropicProvider" where
  "provider_with_tools =
     register_tool (register_tool anthropic_provider calculator_definition calculator_tool)
       failing_definition failing_tool"

text \<open>The chat request of the message-formatting example.\<close>

definition chat_request :: AIRequestBase where
  "chat_request =
     \<lparr>prompt = None,
      messages = Some [[(''role'', ''system''), (''content'', ''S'')],
                       [(''role'', ''user''), (''content'', ''A'')],
                       [(''role'', ''assistant''), (''content'', ''B'')]],
      capability = ''chat_completion'', temperature = None, max_tokens = None,
      additional_params = None\<rparr>"

text \<open>
  The reply and the errors of the retry tests, and the parameters of a call.
\<close>

definition mock_response :: anthropic_message where
  "mock_response =
     \<lparr>message_content = [OtherBlock (Some ''Success after retry'')],
      input_tokens = 10, output_tokens = 8, stop_reason = Some ''end_turn''\<rparr>"

definition rate_limit_error :: exn where
  "rate_limit_error = Exn RateLimitError ''Rate limit exceeded''"

definition timeout_error :: exn where
  "timeout_error = Exn APITimeoutError ''Request timed out.''"

definition connection_error :: exn where
  "connection_error = Exn APIConnectionError ''Connection error.''"

definition bad_request_error :: exn where
  "bad_request_error = Exn BadRequestError ''Malformed request''"

definition test_params :: request_params where
  "test_params =
     \<lparr>rp_model = Some ''claude-sonnet-4-5'', rp_max_tokens = PInt 4096,
      rp_messages = [[(''role'', PStr ''user''), (''content'', PStr ''Test retry'')]],
      rp_temperature = Some (PFloat (7 / 10)), rp_system = None, rp_tools = None,
      rp_thinking = None\<rparr>"

text \<open>The response the provider builds from \<open>mock_response\<close>.\<close>

definition mock_generated :: AIResponse where
  "mock_generated =
     \<lparr>content = ''Success after retry'', model_name = ''claude-sonnet-4-5'',
      provider = ''anthropic'',
      usage = [(''prompt_tokens'', 10), (''completion_tokens'', 8), (''total_tokens'', 18)],
      finish_reason = ''end_turn'', total_tokens = 18, prompt_tokens = 10,
      completion_tokens = 8, is_cached = False\<rparr>"

text \<open>The test provider with a client that keeps the parameters of every call.\<close>

definition logging_provider ::
  "((exn + anthropic_message) list \<times> request_params list) AnthropicProvider" where
  "logging_provider = provider_with_client (logged mock_create)"

text \<open>
  The test provider with a cache service attached, the response its implementation
  builds, and four cache collaborators: one that keeps the object it is given and hands
  it back, one that keeps the contents and hands back a new object with these contents
  (as a cache that serialises does), one whose every operation raises, and one that
  holds nothing and cannot be written.
\<close>

definition cached_provider :: "'s memory cache_service \<Rightarrow> 's BaseAIProvider" where
  "cached_provider cs =
     \<lparr>api_key = Some ''test'', base_url = None, model_id = None, config = [],
      cache_service = Some cs, provider_name = ''anthropic''\<rparr>"

definition generated_response :: AIResponse where
  "generated_response =
     \<lparr>content = ''generated'', model_name = ''test-model'', provider = ''test'',
      usage = [(''prompt_tokens'', 10), (''completion_tokens'', 5), (''total_tokens'', 15)],
      finish_reason = ''stop'', total_tokens = 15, prompt_tokens = 10,
      completion_tokens = 5, is_cached = False\<rparr>"

definition test_impl :: "AIRequestBase \<Rightarrow> ('s, AIResponse) action" where
  "test_impl request s = (Inr generated_response, s)"

definition reference_cache :: "((AIRequestBase \<times> string) \<times> ref) list memory cache_service" where
  "reference_cache =
     \<lparr>get_cached_response = (\<lambda>request name s. (Inr (map_of (outside s) (request, name)), s)),
      cache_response = (\<lambda>request response name s.
        (Inr (), s\<lparr>outside := ((request, name), response) # outside s\<rparr>))\<rparr>"

definition copying_cache ::
  "((AIRequestBase \<times> string) \<times> AIResponse) list memory cache_service" where
  "copying_cache =
     \<lparr>get_cached_response = (\<lambda>request name s.
        case map_of (outside s) (request, name) of
          None \<Rightarrow> (Inr None, s)
        | Some kept \<Rightarrow> (case new_object kept s of (a, s') \<Rightarrow> (Inr (Some a), s'))),
      cache_response = (\<lambda>request response name s.
        case deref s response of
          None \<Rightarrow> (Inr (), s)
        | Some r \<Rightarrow> (Inr (), s\<lparr>outside := ((request, name), r) # outside s\<rparr>))\<rparr>"

definition cache_error :: exn where
  "cache_error = Exn Exception ''cache unavailable''"

definition broken_cache :: "'s cache_service" where
  "broken_cache =
     \<lparr>get_cached_response = (\<lambda>request name s. (Inl cache_error, s)),
      cache_response = (\<lambda>request response name s. (Inl cache_error, s))\<rparr>"

definition read_only_cache :: "'s cache_service" where
  "read_only_cache =
     \<lparr>get_cached_response = (\<lambda>request name s. (Inr None, s)),
      cache_response = (\<lambda>request response name s. (Inl cache_error, s))\<rparr>"

section \<open>Properties\<close>

subsection \<open>Dictionaries\<close>

lemma dict_has_iff: "dict_has d k \<longleftrightarrow> k \<in> fst ` set d"
  by (simp add: dict_has_def map_of_eq_None_iff)

lemma keys_dict_merge: "fst ` set (dict_merge d kwargs) = fst ` set d \<union> fst ` set kwargs"
proof (induction kwargs arbitrary: d)
  case Nil
  then show ?case by (simp add: dict_merge_def)
next
  case (Cons kv kwargs)
  obtain k v where kv: "kv = (k, v)" by (cases kv)
  have "dict_merge d (kv # kwargs) = dict_merge (dict_set d k v) kwargs"
    by (simp add: dict_merge_def kv)
  then show ?case
    using Cons.IH [of "dict_set d k v"] by (auto simp: kv dict_set_def dom_update)
qed

lemma map_of_dict_merge_other:
  "k \<notin> fst ` set kwargs \<Longrightarrow> map_of (dict_merge d kwargs) k = map_of d k"
proof (induction kwargs arbitrary: d)
  case Nil
  then show ?case by (simp add: dict_merge_def)
next
  case (Cons kv kwargs)
  obtain k' v where kv: "kv = (k', v)" by (cases kv)
  have step: "dict_merge d (kv # kwargs) = dict_merge (dict_set d k' v) kwargs"
    by (simp add: dict_merge_def kv)
  from Cons.prems have "k \<noteq> k'" and "k \<notin> fst ` set kwargs" by (auto simp: kv)
  then show ?case
    using Cons.IH [of "dict_set d k' v"] by (simp add: step dict_set_def update_conv')
qed

subsection \<open>The cache gate\<close>

lemma has_non_repeatable_param_iff:
  "has_non_repeatable_param (additional_params request) \<longleftrightarrow>
     (\<exists>k \<in> {''stream'', ''user'', ''request_id''}. has_param request k)"
  by (cases "additional_params request")
     (auto simp: has_non_repeatable_param_def has_param_def dict_has_iff)

lemma caching_disabled_iff:
  "truthy (dict_get (config self) ''disable_caching'' (PBool False)) \<longleftrightarrow> caching_disabled self"
  by (auto simp: caching_disabled_def dict_get_def split: option.splits)

text \<open>
  C4. A request is cacheable exactly when its temperature is absent or at most zero, its
  additional parameters contain none of the keys \<^verbatim>\<open>stream\<close>, \<^verbatim>\<open>user\<close>, \<^verbatim>\<open>request_id\<close>,
  and the provider's configuration does not disable caching. In particular a request
  with a positive temperature is never cacheable, and a request with one of the three
  keys is never cacheable, whatever its temperature.
\<close>

theorem is_cacheable_iff:
  "(is_cacheable self request \<longleftrightarrow>
      (case temperature request of None \<Rightarrow> True | Some t \<Rightarrow> t \<le> 0) \<and>
      \<not> (\<exists>k \<in> {''stream'', ''user'', ''request_id''}. has_param request k) \<and>
      \<not> caching_disabled self) \<and>
   (\<forall>t. temperature request = Some t \<and> t > 0 \<longrightarrow> \<not> is_cacheable self request) \<and>
   (\<forall>k \<in> {''stream'', ''user'', ''request_id''}.
      has_param request k \<longrightarrow> \<not> is_cacheable self request)"
  unfolding is_cacheable_def has_non_repeatable_param_iff caching_disabled_iff
  by (auto split: option.splits)

theorem is_cacheable_iff_witness:
  "is_cacheable test_provider (test_request (Some 0) None) \<and>
   is_cacheable test_provider (test_request None (Some [(''top_k'', PInt 5)])) \<and>
   \<not> is_cacheable test_provider (test_request (Some (7 / 10)) None) \<and>
   \<not> is_cacheable test_provider (test_request (Some 0) (Some [(''stream'', PBool True)])) \<and>
   \<not> is_cacheable (test_provider\<lparr>config := [(''disable_caching'', PBool True)]\<rparr>)
        (test_request (Some 0) None)"
  using is_cacheable_iff [of test_provider "test_request (Some 0) None"]
    is_cacheable_iff [of test_provider "test_request None (Some [(''top_k'', PInt 5)])"]
    is_cacheable_iff [of test_provider "test_request (Some (7 / 10)) None"]
    is_cacheable_iff [of test_provider "test_request (Some 0) (Some [(''stream'', PBool True)])"]
    is_cacheable_iff [of "test_provider\<lparr>config := [(''disable_caching'', PBool True)]\<rparr>"
      "test_request (Some 0) None"]
  by (simp add: test_provider_def test_request_def has_param_def caching_disabled_def)

subsection \<open>The convenience method\<close>

lemma keys_generate_request:
  "has_param (generate_request prompt_text max_toks temp kwargs) k \<longleftrightarrow>
     k = ''max_tokens'' \<or> k = ''temperature'' \<or> k \<in> fst ` set kwargs"
  unfolding has_param_def generate_request_def
  by (simp add: keys_dict_merge)

lemma temperature_generate_request:
  "temperature (generate_request prompt_text max_toks temp kwargs) = None"
  by (simp add: generate_request_def)

lemma dict_merge_nonempty: "d \<noteq> [] \<Longrightarrow> dict_merge d kwargs \<noteq> []"
proof
  assume "d \<noteq> []" and "dict_merge d kwargs = []"
  then have "fst ` set d \<union> fst ` set kwargs = {}"
    using keys_dict_merge [of d kwargs] by simp
  with \<open>d \<noteq> []\<close> show False by simp
qed

lemma additional_param_generate_request:
  assumes "''temperature'' \<notin> fst ` set kwargs"
  shows "additional_param (generate_request prompt_text max_toks temp kwargs) ''temperature''
           = PFloat temp"
proof -
  define d where "d = [(''max_tokens'', PInt (case max_toks of None \<Rightarrow> 2048
            | Some n \<Rightarrow> if n \<noteq> 0 then n else 2048)), (''temperature'', PFloat temp)]"
  have ap: "additional_params (generate_request prompt_text max_toks temp kwargs)
              = Some (dict_merge d kwargs)"
    by (simp add: generate_request_def d_def)
  have "d \<noteq> []" by (simp add: d_def)
  then have ne: "dict_merge d kwargs \<noteq> []" by (rule dict_merge_nonempty)
  have "map_of (dict_merge d kwargs) ''temperature'' = map_of d ''temperature''"
    using assms by (rule map_of_dict_merge_other)
  also have "\<dots> = Some (PFloat temp)" by (simp add: d_def)
  finally show ?thesis
    by (simp add: additional_param_def ap ne dict_get_def)
qed

text \<open>
  C10. When the configuration does not disable caching and the keyword arguments have
  none of the keys \<^verbatim>\<open>stream\<close>, \<^verbatim>\<open>user\<close>, \<^verbatim>\<open>request_id\<close>, the request that
  \<^verbatim>\<open>generate\<close> builds is cacheable for every temperature, a positive one included:
  the temperature field the cache gate reads is left empty, and the temperature sits in
  the additional parameters, where the generation reads it.
\<close>

theorem generate_request_is_cacheable:
  assumes "\<not> caching_disabled self"
    and "\<forall>k \<in> {''stream'', ''user'', ''request_id''}. k \<notin> fst ` set kwargs"
  shows "is_cacheable self (generate_request prompt_text max_toks temp kwargs) \<and>
         temperature (generate_request prompt_text max_toks temp kwargs) = None \<and>
         (''temperature'' \<notin> fst ` set kwargs \<longrightarrow>
            additional_param (generate_request prompt_text max_toks temp kwargs) ''temperature''
              = PFloat temp)"
proof -
  have "is_cacheable self (generate_request prompt_text max_toks temp kwargs)"
    unfolding is_cacheable_def has_non_repeatable_param_iff caching_disabled_iff
    using assms by (simp add: temperature_generate_request keys_generate_request)
  then show ?thesis
    by (simp add: temperature_generate_request additional_param_generate_request)
qed

theorem generate_request_is_cacheable_witness:
  "\<not> caching_disabled test_provider \<and>
   ''stream'' \<notin> fst ` set [(''top_k'', PInt 5)] \<and>
   ''user'' \<notin> fst ` set [(''top_k'', PInt 5)] \<and>
   ''request_id'' \<notin> fst ` set [(''top_k'', PInt 5)] \<and>
   is_cacheable test_provider
     (generate_request ''Test prompt'' (Some 100) (7 / 10) [(''top_k'', PInt 5)]) \<and>
   additional_param (generate_request ''Test prompt'' (Some 100) (7 / 10) [(''top_k'', PInt 5)])
     ''temperature'' = PFloat (7 / 10)"
proof -
  have h1: "\<not> caching_disabled test_provider"
    by (simp add: caching_disabled_def test_provider_def)
  have h2: "\<forall>k \<in> {''stream'', ''user'', ''request_id''}. k \<notin> fst ` set [(''top_k'', PInt 5)]"
    by simp
  have h3: "''temperature'' \<notin> fst ` set [(''top_k'', PInt 5)]"
    by simp
  from generate_request_is_cacheable [OF h1 h2, of "''Test prompt''" "Some 100" "7 / 10"] h1 h3
  show ?thesis by simp
qed

subsection \<open>Tool execution\<close>

lemma isinstance_Exception [simp]: "isinstance e Exception"
  by (simp add: isinstance_def)

lemma tool_handlers_provider_with_tools:
  "tool_handlers provider_with_tools =
     [(''calculator'', calculator_tool), (''failing_tool'', failing_tool)]"
  by (simp add: provider_with_tools_def register_tool_def anthropic_provider_def
        provider_with_client_def dict_set_def
        calculator_definition_def failing_definition_def)

text \<open>
  C6. Executing a tool never raises. For a name that is not registered the result is a
  failure that lists the registered names; when the handler of a registered name raises,
  the result is a failure with the error's message; when the handler returns, the result
  is a success with the returned value as it is.
\<close>

theorem execute_tool_never_raises:
  "(\<exists>result. execute_tool self name tool_input = Inr result) \<and>
   (name \<notin> fst ` set (tool_handlers self) \<longrightarrow>
      execute_tool self name tool_input =
        Inr [(''error'', PStr (''Tool '' @ [CHR 0x27] @ name @ [CHR 0x27] @ '' not found'')),
             (''available_tools'', PList (map PStr (map fst (tool_handlers self))))]) \<and>
   (\<forall>handler e. map_of (tool_handlers self) name = Some handler \<and> handler tool_input = Inl e \<longrightarrow>
      execute_tool self name tool_input =
        Inr [(''error'', PStr (exn_str e)), (''success'', PBool False)]) \<and>
   (\<forall>handler v. map_of (tool_handlers self) name = Some handler \<and> handler tool_input = Inr v \<longrightarrow>
      execute_tool self name tool_input = Inr [(''success'', PBool True), (''result'', v)])"
  by (auto simp: execute_tool_def dict_has_def dict_keys_def map_of_eq_None_iff
           split: option.splits sum.splits)

theorem execute_tool_never_raises_witness:
  "execute_tool provider_with_tools ''calculator''
     [(''operation'', PStr ''add''), (''a'', PInt 5), (''b'', PInt 3)]
     = Inr [(''success'', PBool True), (''result'', PInt 8)] \<and>
   execute_tool provider_with_tools ''failing_tool'' [(''param'', PStr ''test'')]
     = Inr [(''error'', PStr ''Tool failed''), (''success'', PBool False)] \<and>
   execute_tool provider_with_tools ''missing'' []
     = Inr [(''error'', PStr (''Tool '' @ [CHR 0x27] @ ''missing'' @ [CHR 0x27] @ '' not found'')),
            (''available_tools'', PList [PStr ''calculator'', PStr ''failing_tool''])]"
  using execute_tool_never_raises [of provider_with_tools "''calculator''"
      "[(''operation'', PStr ''add''), (''a'', PInt 5), (''b'', PInt 3)]"]
    execute_tool_never_raises [of provider_with_tools "''failing_tool''" "[(''param'', PStr ''test'')]"]
    execute_tool_never_raises [of provider_with_tools "''missing''" "[]"]
  by (simp add: tool_handlers_provider_with_tools calculator_tool_def failing_tool_def)

subsection \<open>Message formatting\<close>

lemma format_loop_eq:
  "format_loop ms acc = acc @ map passed_on (filter (\<lambda>m. \<not> is_system m) ms)"
proof (induction ms arbitrary: acc)
  case Nil
  then show ?case by simp
next
  case (Cons msg ms)
  show ?case
  proof (cases "is_system msg")
    case True
    then show ?thesis
      using Cons.IH [of acc] by (simp add: is_system_def role_of_def dict_get_def)
  next
    case False
    then have "format_loop (msg # ms) acc = format_loop ms (acc @ [passed_on msg])"
      by (simp add: is_system_def role_of_def content_of_def dict_get_def passed_on_def
            provider_message_def Let_def)
    with False show ?thesis
      using Cons.IH [of "acc @ [passed_on msg]"] by simp
  qed
qed

lemma first_system_eq: "first_system ms = map_option content_of (find is_system ms)"
proof (induction ms)
  case Nil
  then show ?case by simp
next
  case (Cons msg ms)
  have "map_of msg ''role'' = Some ''system'' \<longleftrightarrow> is_system msg"
    by (simp add: is_system_def role_of_def split: option.splits)
  with Cons.IH show ?case
    by (simp add: content_of_def dict_get_def)
qed

text \<open>
  C9. For a request with a non-empty message sequence, the provider-facing list is
  exactly the messages not tagged \<^verbatim>\<open>system\<close>, in their order and with their content,
  and the system prompt is the content of the (first) message tagged \<^verbatim>\<open>system\<close>.
  For a request without messages, the list is one user message made from the prompt.
\<close>

theorem format_messages_correct:
  "(\<forall>ms. messages request = Some ms \<and> ms \<noteq> [] \<longrightarrow>
      format_messages request = map passed_on (filter (\<lambda>m. \<not> is_system m) ms) \<and>
      map (\<lambda>d. map_of d ''content'') (format_messages request)
        = map (\<lambda>m. Some (PStr (content_of m))) (filter (\<lambda>m. \<not> is_system m) ms) \<and>
      extract_system_message request = map_option content_of (find is_system ms)) \<and>
   (messages request = None \<or> messages request = Some [] \<longrightarrow>
      format_messages request = [provider_message ''user'' (opt_str (prompt request))])"
proof -
  have content: "map_of (passed_on m) ''content'' = Some (PStr (content_of m))" for m
    by (simp add: passed_on_def provider_message_def)
  show ?thesis
    by (auto simp: format_messages_def extract_system_message_def format_loop_eq
          first_system_eq provider_message_def content)
qed

theorem format_messages_correct_witness:
  "format_messages chat_request
     = [provider_message ''user'' (PStr ''A''), provider_message ''assistant'' (PStr ''B'')] \<and>
   extract_system_message chat_request = Some ''S'' \<and>
   format_messages (test_request None None) = [provider_message ''user'' (PStr ''test'')]"
  using format_messages_correct [of chat_request] format_messages_correct [of "test_request None None"]
  by (simp add: chat_request_def test_request_def passed_on_def is_system_def role_of_def
        content_of_def opt_str_def)

subsection \<open>The retry loop\<close>

lemma retryable_iff:
  "retryable e \<longleftrightarrow>
     isinstance e RateLimitError \<or> isinstance e APITimeoutError \<or> isinstance e APIConnectionError"
  by (cases "exn_cls e") (simp_all add: retryable_def isinstance_def)

lemma world_backoff [simp]: "world (backoff self attempt s) = world s"
  by (simp add: backoff_def)

lemma retry_loop_again:
  assumes "func (world s) = (Inl e, w)" and "retryable e"
  shows "retry_loop self func (attempt # rest) last_exception s
           = retry_loop self func rest (Some e) (backoff self attempt (s\<lparr>world := w\<rparr>))"
proof -
  from assms(2) have "isinstance e RateLimitError \<or> isinstance e APITimeoutError \<or>
      isinstance e APIConnectionError"
    by (simp add: retryable_iff)
  with assms(1) show ?thesis by auto
qed

lemma retry_loop_final:
  assumes "func (world s) = (r, w)" and "final r"
  shows "retry_loop self func (attempt # rest) last_exception s = (r, s\<lparr>world := w\<rparr>)"
proof (cases r)
  case (Inl e)
  with assms(2) have "\<not> isinstance e RateLimitError" "\<not> isinstance e APITimeoutError"
      "\<not> isinstance e APIConnectionError"
    by (simp_all add: final_def retryable_iff)
  with assms(1) Inl show ?thesis by simp
next
  case (Inr v)
  with assms(1) show ?thesis by simp
qed

lemma outcome_0: "outcome func 0 w = fst (func w)"
  by (simp add: outcome_def)

lemma outcome_Suc: "outcome func (Suc k) w = outcome func k (snd (func w))"
  by (simp add: outcome_def)

text \<open>
  The loop stops at the first outcome that is a result or an error it does not retry,
  and hands that outcome on as it is.
\<close>

lemma retry_loop_stops:
  assumes "\<forall>i<k. \<not> final (outcome func i (world s))"
    and "final (outcome func k (world s))"
    and "k < length attempts"
  shows "fst (retry_loop self func attempts last_exception s) = outcome func k (world s) \<and>
         world (snd (retry_loop self func attempts last_exception s))
           = world_after func (Suc k) (world s)"
  using assms
proof (induction attempts arbitrary: k s last_exception)
  case Nil
  then show ?case by simp
next
  case (Cons attempt rest)
  obtain r w where call: "func (world s) = (r, w)" by (cases "func (world s)")
  show ?case
  proof (cases k)
    case 0
    with Cons.prems call have "final r" by (simp add: outcome_0)
    with call show ?thesis
      using retry_loop_final [of func s r w self attempt rest last_exception]
      by (simp add: 0 outcome_0)
  next
    case (Suc j)
    with Cons.prems call have "\<not> final r" by (auto simp: outcome_0)
    then obtain e where r: "r = Inl e" and e: "retryable e"
      by (cases r) (auto simp: final_def)
    let ?s = "backoff self attempt (s\<lparr>world := w\<rparr>)"
    have step: "retry_loop self func (attempt # rest) last_exception s
                  = retry_loop self func rest (Some e) ?s"
      using call e retry_loop_again [of func s e w self attempt rest last_exception]
      unfolding r by blast
    have "\<forall>i<j. \<not> final (outcome func i (world ?s))"
      using Cons.prems(1) call by (auto simp: Suc outcome_Suc dest: Suc_mono)
    moreover have "final (outcome func j (world ?s))"
      using Cons.prems(2) call by (simp add: Suc outcome_Suc)
    moreover have "j < length rest"
      using Cons.prems(3) by (simp add: Suc)
    ultimately have "fst (retry_loop self func rest (Some e) ?s) = outcome func j (world ?s) \<and>
         world (snd (retry_loop self func rest (Some e) ?s)) = world_after func (Suc j) (world ?s)"
      by (rule Cons.IH)
    then show ?thesis
      unfolding step using call by (simp add: Suc outcome_Suc)
  qed
qed

text \<open>
  When every attempt fails with a transient error, the loop raises the error of the
  last attempt; with no attempt at all it raises what it was given.
\<close>

lemma retry_loop_exhausted:
  assumes "\<forall>i<length attempts. \<not> final (outcome func i (world s))"
  shows "fst (retry_loop self func attempts last_exception s)
           = (if attempts = []
              then (case last_exception of
                      None \<Rightarrow> Inl (Exn TypeError ''exceptions must derive from BaseException'')
                    | Some e \<Rightarrow> Inl e)
              else outcome func (length attempts - 1) (world s)) \<and>
         world (snd (retry_loop self func attempts last_exception s))
           = world_after func (length attempts) (world s)"
  using assms
proof (induction attempts arbitrary: s last_exception)
  case Nil
  then show ?case by (simp split: option.splits)
next
  case (Cons attempt rest)
  obtain r w where call: "func (world s) = (r, w)" by (cases "func (world s)")
  from Cons.prems call have "\<not> final r" by (auto simp: outcome_0)
  then obtain e where r: "r = Inl e" and e: "retryable e"
    by (cases r) (auto simp: final_def)
  let ?s = "backoff self attempt (s\<lparr>world := w\<rparr>)"
  have step: "retry_loop self func (attempt # rest) last_exception s
                = retry_loop self func rest (Some e) ?s"
    using call e retry_loop_again [of func s e w self attempt rest last_exception]
      unfolding r by blast
  have "\<forall>i<length rest. \<not> final (outcome func i (world ?s))"
    using Cons.prems call by (auto simp: outcome_Suc dest: Suc_mono)
  then have IH: "fst (retry_loop self func rest (Some e) ?s)
           = (if rest = [] then Inl e else outcome func (length rest - 1) (world ?s)) \<and>
         world (snd (retry_loop self func rest (Some e) ?s))
           = world_after func (length rest) (world ?s)"
    using Cons.IH [of ?s "Some e"] by simp
  show ?case
  proof (cases rest)
    case Nil
    with IH call r show ?thesis unfolding step by (simp add: outcome_0)
  next
    case (Cons a as)
    with IH call show ?thesis unfolding step by (simp add: outcome_Suc)
  qed
qed

subsection \<open>Counting invocations\<close>

lemma world_after_counted:
  "world_after (counted func) k (w, n) = (world_after func k w, n + k)"
  by (induction k arbitrary: w n) (simp_all add: counted_def split: prod.splits)

lemma outcome_counted: "outcome (counted func) k (w, n) = outcome func k w"
  by (simp add: outcome_def world_after_counted) (simp add: counted_def split: prod.splits)

lemma not_final_iff: "\<not> final r \<longleftrightarrow> (\<exists>e. r = Inl e \<and> retryable e)"
  by (cases r) (simp_all add: final_def)

lemma retry_with_backoff_stops:
  assumes "\<forall>i<k. \<exists>e. outcome func i w = Inl e \<and> retryable e"
    and "final (outcome func k w)"
    and "int k < max_retries self"
  shows "fst (retry_with_backoff self (counted func) \<lparr>world = (w, n), slept = waits\<rparr>)
           = outcome func k w \<and>
         snd (world (snd (retry_with_backoff self (counted func) \<lparr>world = (w, n), slept = waits\<rparr>)))
           = n + Suc k"
proof -
  let ?s = "\<lparr>world = (w, n), slept = waits\<rparr>"
  have "\<forall>i<k. \<not> final (outcome (counted func) i (world ?s))"
    using assms(1) by (simp add: outcome_counted not_final_iff)
  moreover have "final (outcome (counted func) k (world ?s))"
    using assms(2) by (simp add: outcome_counted)
  moreover have "k < length [0..<nat (max_retries self)]"
    using assms(3) by simp
  ultimately have "fst (retry_loop self (counted func) [0..<nat (max_retries self)] None ?s)
        = outcome (counted func) k (world ?s) \<and>
      world (snd (retry_loop self (counted func) [0..<nat (max_retries self)] None ?s))
        = world_after (counted func) (Suc k) (world ?s)"
    by (rule retry_loop_stops)
  then show ?thesis
    by (simp add: retry_with_backoff_def outcome_counted world_after_counted del: world_after.simps)
qed

lemma retry_with_backoff_exhausted:
  assumes "\<forall>i<nat (max_retries self). \<exists>e. outcome func i w = Inl e \<and> retryable e"
    and "1 \<le> max_retries self"
  shows "fst (retry_with_backoff self (counted func) \<lparr>world = (w, n), slept = waits\<rparr>)
           = outcome func (nat (max_retries self) - 1) w \<and>
         snd (world (snd (retry_with_backoff self (counted func) \<lparr>world = (w, n), slept = waits\<rparr>)))
           = n + nat (max_retries self)"
proof -
  let ?s = "\<lparr>world = (w, n), slept = waits\<rparr>"
  let ?attempts = "[0..<nat (max_retries self)]"
  have "\<forall>i<length ?attempts. \<not> final (outcome (counted func) i (world ?s))"
    using assms(1) by (simp add: outcome_counted not_final_iff)
  then have "fst (retry_loop self (counted func) ?attempts None ?s)
        = (if ?attempts = []
           then (case None of
                   None \<Rightarrow> Inl (Exn TypeError ''exceptions must derive from BaseException'')
                 | Some e \<Rightarrow> Inl e)
           else outcome (counted func) (length ?attempts - 1) (world ?s)) \<and>
      world (snd (retry_loop self (counted func) ?attempts None ?s))
        = world_after (counted func) (length ?attempts) (world ?s)"
    by (rule retry_loop_exhausted)
  moreover have "?attempts \<noteq> []"
    using assms(2) by simp
  ultimately show ?thesis
    by (simp add: retry_with_backoff_def outcome_counted world_after_counted del: world_after.simps)
qed

text \<open>
  C3. With \<^verbatim>\<open>max_retries\<close> at least 1: when the operation raises transient errors on its
  first \<open>N - 1\<close> invocations and returns on invocation \<open>N \<le> max_retries\<close>, the retry
  returns that result after exactly \<open>N\<close> invocations; when it raises a transient error
  on every invocation, the retry raises the last of them after exactly \<^verbatim>\<open>max_retries\<close>
  invocations; when it raises an error that is not transient, the retry raises it at
  once, after exactly one invocation.
\<close>

theorem retry_with_backoff_correct:
  assumes "1 \<le> max_retries self"
  shows
    "(\<forall>N v. 1 \<le> N \<and> int N \<le> max_retries self \<and>
         (\<forall>i<N - 1. \<exists>e. outcome func i w = Inl e \<and> retryable e) \<and>
         outcome func (N - 1) w = Inr v \<longrightarrow>
         fst (retry_with_backoff self (counted func) \<lparr>world = (w, 0), slept = []\<rparr>) = Inr v \<and>
         snd (world (snd (retry_with_backoff self (counted func) \<lparr>world = (w, 0), slept = []\<rparr>)))
           = N) \<and>
     ((\<forall>i<nat (max_retries self). \<exists>e. outcome func i w = Inl e \<and> retryable e) \<longrightarrow>
         fst (retry_with_backoff self (counted func) \<lparr>world = (w, 0), slept = []\<rparr>)
           = outcome func (nat (max_retries self) - 1) w \<and>
         snd (world (snd (retry_with_backoff self (counted func) \<lparr>world = (w, 0), slept = []\<rparr>)))
           = nat (max_retries self)) \<and>
     (\<forall>e. outcome func 0 w = Inl e \<and> \<not> retryable e \<longrightarrow>
         fst (retry_with_backoff self (counted func) \<lparr>world = (w, 0), slept = []\<rparr>) = Inl e \<and>
         snd (world (snd (retry_with_backoff self (counted func) \<lparr>world = (w, 0), slept = []\<rparr>)))
           = 1)"
proof (intro conjI allI impI)
  fix N v
  assume h: "1 \<le> N \<and> int N \<le> max_retries self \<and>
         (\<forall>i<N - 1. \<exists>e. outcome func i w = Inl e \<and> retryable e) \<and>
         outcome func (N - 1) w = Inr v"
  then have "final (outcome func (N - 1) w)" and "int (N - 1) < max_retries self"
    by (auto simp: final_def)
  with h have "fst (retry_with_backoff self (counted func) \<lparr>world = (w, 0), slept = []\<rparr>)
           = outcome func (N - 1) w \<and>
         snd (world (snd (retry_with_backoff self (counted func) \<lparr>world = (w, 0), slept = []\<rparr>)))
           = 0 + Suc (N - 1)"
    by (intro retry_with_backoff_stops) auto
  with h show "fst (retry_with_backoff self (counted func) \<lparr>world = (w, 0), slept = []\<rparr>) = Inr v"
    and "snd (world (snd (retry_with_backoff self (counted func) \<lparr>world = (w, 0), slept = []\<rparr>))) = N"
    by auto
next
  assume h: "\<forall>i<nat (max_retries self). \<exists>e. outcome func i w = Inl e \<and> retryable e"
  from retry_with_backoff_exhausted [OF h assms, of 0 "[]"]
  show "fst (retry_with_backoff self (counted func) \<lparr>world = (w, 0), slept = []\<rparr>)
           = outcome func (nat (max_retries self) - 1) w"
    and "snd (world (snd (retry_with_backoff self (counted func) \<lparr>world = (w, 0), slept = []\<rparr>)))
           = nat (max_retries self)"
    by auto
next
  fix e
  assume h: "outcome func 0 w = Inl e \<and> \<not> retryable e"
  then have "final (outcome func 0 w)" by (simp add: final_def)
  moreover have "int 0 < max_retries self" using assms by simp
  ultimately have "fst (retry_with_backoff self (counted func) \<lparr>world = (w, 0), slept = []\<rparr>)
           = outcome func 0 w \<and>
         snd (world (snd (retry_with_backoff self (counted func) \<lparr>world = (w, 0), slept = []\<rparr>)))
           = 0 + Suc 0"
    by (intro retry_with_backoff_stops) auto
  with h show "fst (retry_with_backoff self (counted func) \<lparr>world = (w, 0), slept = []\<rparr>) = Inl e"
    and "snd (world (snd (retry_with_backoff self (counted func) \<lparr>world = (w, 0), slept = []\<rparr>))) = 1"
    by auto
qed

theorem retry_with_backoff_correct_witness:
  "fst (retry_with_backoff counting_provider (counted (mock_create test_params))
          \<lparr>world = ([Inl rate_limit_error, Inr mock_response], 0), slept = []\<rparr>)
     = Inr mock_response \<and>
   snd (world (snd (retry_with_backoff counting_provider (counted (mock_create test_params))
          \<lparr>world = ([Inl rate_limit_error, Inr mock_response], 0), slept = []\<rparr>))) = 2 \<and>
   fst (retry_with_backoff counting_provider (counted (mock_create test_params))
          \<lparr>world = ([Inl rate_limit_error, Inl timeout_error, Inl connection_error], 0),
           slept = []\<rparr>)
     = Inl connection_error \<and>
   snd (world (snd (retry_with_backoff counting_provider (counted (mock_create test_params))
          \<lparr>world = ([Inl rate_limit_error, Inl timeout_error, Inl connection_error], 0),
           slept = []\<rparr>))) = 3 \<and>
   fst (retry_with_backoff counting_provider (counted (mock_create test_params))
          \<lparr>world = ([Inl bad_request_error, Inr mock_response], 0), slept = []\<rparr>)
     = Inl bad_request_error \<and>
   snd (world (snd (retry_with_backoff counting_provider (counted (mock_create test_params))
          \<lparr>world = ([Inl bad_request_error, Inr mock_response], 0), slept = []\<rparr>))) = 1"
proof -
  let ?f = "mock_create test_params"
  have retries: "1 \<le> max_retries counting_provider"
    by (simp add: counting_provider_def provider_with_client_def)
  have three: "nat (max_retries counting_provider) = 3"
    by (simp add: counting_provider_def provider_with_client_def)
  have transient: "retryable rate_limit_error" "retryable timeout_error"
      "retryable connection_error" "\<not> retryable bad_request_error"
    by (simp_all add: retryable_def rate_limit_error_def timeout_error_def
          connection_error_def bad_request_error_def)
  have first: "1 \<le> (2::nat) \<and> int 2 \<le> max_retries counting_provider \<and>
      (\<forall>i<2 - 1. \<exists>e. outcome ?f i [Inl rate_limit_error, Inr mock_response] = Inl e \<and> retryable e) \<and>
      outcome ?f (2 - 1) [Inl rate_limit_error, Inr mock_response] = Inr mock_response"
    by (simp add: counting_provider_def provider_with_client_def outcome_def mock_create_def transient)
  have second: "\<forall>i<nat (max_retries counting_provider).
      \<exists>e. outcome ?f i [Inl rate_limit_error, Inl timeout_error, Inl connection_error] = Inl e \<and>
          retryable e"
  proof (intro allI impI)
    fix i :: nat
    assume "i < nat (max_retries counting_provider)"
    then consider "i = 0" | "i = Suc 0" | "i = Suc (Suc 0)"
      unfolding three by linarith
    then show "\<exists>e. outcome ?f i [Inl rate_limit_error, Inl timeout_error, Inl connection_error]
        = Inl e \<and> retryable e"
      by cases (simp_all add: outcome_def mock_create_def transient)
  qed
  have last: "outcome ?f (nat (max_retries counting_provider) - 1)
      [Inl rate_limit_error, Inl timeout_error, Inl connection_error] = Inl connection_error"
    unfolding three by (simp add: outcome_def mock_create_def numeral_2_eq_2)
  have third: "outcome ?f 0 [Inl bad_request_error, Inr mock_response] = Inl bad_request_error \<and>
      \<not> retryable bad_request_error"
    by (simp add: outcome_def mock_create_def transient)
  note thm1 = retry_with_backoff_correct [OF retries, of ?f "[Inl rate_limit_error, Inr mock_response]"]
  note thm2 = retry_with_backoff_correct [OF retries, of ?f
      "[Inl rate_limit_error, Inl timeout_error, Inl connection_error]"]
  note thm3 = retry_with_backoff_correct [OF retries, of ?f "[Inl bad_request_error, Inr mock_response]"]
  from thm1 first have
    "fst (retry_with_backoff counting_provider (counted ?f)
          \<lparr>world = ([Inl rate_limit_error, Inr mock_response], 0), slept = []\<rparr>)
       = Inr mock_response \<and>
     snd (world (snd (retry_with_backoff counting_provider (counted ?f)
          \<lparr>world = ([Inl rate_limit_error, Inr mock_response], 0), slept = []\<rparr>))) = 2"
    by blast
  moreover from thm2 second last three have
    "fst (retry_with_backoff counting_provider (counted ?f)
          \<lparr>world = ([Inl rate_limit_error, Inl timeout_error, Inl connection_error], 0),
           slept = []\<rparr>)
       = Inl connection_error \<and>
     snd (world (snd (retry_with_backoff counting_provider (counted ?f)
          \<lparr>world = ([Inl rate_limit_error, Inl timeout_error, Inl connection_error], 0),
           slept = []\<rparr>))) = 3"
    by metis
  moreover from thm3 third have
    "fst (retry_with_backoff counting_provider (counted ?f)
          \<lparr>world = ([Inl bad_request_error, Inr mock_response], 0), slept = []\<rparr>)
       = Inl bad_request_error \<and>
     snd (world (snd (retry_with_backoff counting_provider (counted ?f)
          \<lparr>world = ([Inl bad_request_error, Inr mock_response], 0), slept = []\<rparr>))) = 1"
    by blast
  ultimately show ?thesis by blast
qed

subsection \<open>The remote call\<close>

lemma retry_with_backoff_returns:
  assumes "func (world s) = (Inr v, w)" and "1 \<le> max_retries self"
  shows "retry_with_backoff self func s = (Inr v, s\<lparr>world := w\<rparr>)"
proof -
  from assms(2) have "[0..<nat (max_retries self)] = 0 # [1..<nat (max_retries self)]"
    by (simp add: upt_conv_Cons)
  with assms(1) show ?thesis
    by (simp add: retry_with_backoff_def)
qed

lemma retry_with_backoff_gives_up:
  assumes "\<forall>i<nat (max_retries self). \<exists>e. outcome func i (world s) = Inl e \<and> retryable e"
    and "1 \<le> max_retries self"
  shows "fst (retry_with_backoff self func s) = outcome func (nat (max_retries self) - 1) (world s)"
proof -
  let ?attempts = "[0..<nat (max_retries self)]"
  have "\<forall>i<length ?attempts. \<not> final (outcome func i (world s))"
    using assms(1) by (simp add: not_final_iff)
  then have "fst (retry_loop self func ?attempts None s)
        = (if ?attempts = []
           then (case None of
                   None \<Rightarrow> Inl (Exn TypeError ''exceptions must derive from BaseException'')
                 | Some e \<Rightarrow> Inl e)
           else outcome func (length ?attempts - 1) (world s)) \<and>
      world (snd (retry_loop self func ?attempts None s))
        = world_after func (length ?attempts) (world s)"
    by (rule retry_loop_exhausted)
  moreover have "?attempts \<noteq> []"
    using assms(2) by simp
  ultimately show ?thesis
    by (simp add: retry_with_backoff_def)
qed

text \<open>
  The two implementations, as a remote call with the parameters they prepare followed
  by the construction of the response.
\<close>

lemma create_message_with_tools_eq:
  "create_message_with_tools self msgs model max_toks temp system tls thinking s =
     (if \<not> str_truthy (api_key self) then
        (Inl (Exn ValueError
           ''API key not provided. Please set ANTHROPIC_API_KEY environment variable.''), s)
      else
        case retry_with_backoff self
               (client self (prepare_request_params self msgs model max_toks temp system tls thinking)) s of
          (Inr response, s') \<Rightarrow> (Inr response, s')
        | (Inl e, s') \<Rightarrow> (Inl (reraised e), s'))"
  by (simp add: create_message_with_tools_def reraised_def Let_def split: prod.splits sum.splits)

lemma generate_completion_impl_eq:
  "generate_completion_impl self request s =
     (if \<not> str_truthy (api_key self) then
        (Inl (Exn ValueError
           ''API key not provided. Please set ANTHROPIC_API_KEY environment variable.''), s)
      else
        case retry_with_backoff self (client self (completion_request_params self request)) s of
          (Inr response, s') \<Rightarrow> (build_response self response, s')
        | (Inl e, s') \<Rightarrow> (Inl (reraised e), s'))"
  unfolding generate_completion_impl_def completion_request_params_def
    create_message_with_tools_eq Let_def
  by (simp split: prod.splits sum.splits)

lemma generate_chat_completion_impl_eq:
  "generate_chat_completion_impl self request s =
     (if \<not> str_truthy (api_key self) then
        (Inl (Exn ValueError
           ''API key not provided. Please set ANTHROPIC_API_KEY environment variable.''), s)
      else
        case retry_with_backoff self (client self (chat_request_params self request)) s of
          (Inr response, s') \<Rightarrow> (build_response self response, s')
        | (Inl e, s') \<Rightarrow> (Inl (reraised e), s'))"
  unfolding generate_chat_completion_impl_def chat_request_params_def
    create_message_with_tools_eq Let_def
  by (simp split: prod.splits sum.splits)

lemma reraised_transient:
  "retryable e \<Longrightarrow>
   reraised e = (if exn_cls e = RateLimitError
                 then Exn ValueError (''Anthropic API error: '' @ exn_str e)
                 else Exn Exception (''Failed to call Anthropic API: '' @ exn_str e))"
  by (auto simp: reraised_def retryable_def isinstance_def)

lemma generate_completion_without_cache:
  "cache_service self = None \<Longrightarrow> generate_completion self impl request s = impl request s"
  by (simp add: generate_completion_def cache_lookup_def cache_store_def
        split: prod.splits sum.splits)

lemma generate_chat_completion_without_cache:
  "cache_service self = None \<Longrightarrow> generate_chat_completion self impl request s = impl request s"
  by (simp add: generate_chat_completion_def cache_lookup_def cache_store_def
        split: prod.splits sum.splits)

lemma constructing_error:
  "fst (impl request (outside s)) = Inl e \<Longrightarrow> fst (constructing impl request s) = Inl e"
  by (cases "impl request (outside s)") (auto simp: constructing_def)

text \<open>
  What the caller gets when every attempt of one remote call fails with a transient
  error: the retry raises the error of the last attempt, and the implementation raises
  its replacement.
\<close>

lemma implementation_gives_up:
  assumes "str_truthy (api_key self)"
    and "1 \<le> max_retries self"
    and "\<forall>i<nat (max_retries self). \<exists>e. outcome (client self params) i (world s) = Inl e \<and> retryable e"
    and "\<And>s. impl s = (case retry_with_backoff self (client self params) s of
                           (Inr response, s') \<Rightarrow> (build_response self response, s')
                         | (Inl e, s') \<Rightarrow> (Inl (reraised e), s'))"
  shows "\<exists>e. outcome (client self params) (nat (max_retries self) - 1) (world s) = Inl e \<and>
          retryable e \<and>
          fst (retry_with_backoff self (client self params) s) = Inl e \<and>
          fst (impl s)
            = Inl (if exn_cls e = RateLimitError
                   then Exn ValueError (''Anthropic API error: '' @ exn_str e)
                   else Exn Exception (''Failed to call Anthropic API: '' @ exn_str e)) \<and>
          exn_cls e \<noteq> ValueError \<and> exn_cls e \<noteq> Exception"
proof -
  from assms(2) have "nat (max_retries self) - 1 < nat (max_retries self)"
    by simp
  with assms(3) obtain e where
    e: "outcome (client self params) (nat (max_retries self) - 1) (world s) = Inl e" "retryable e"
    by blast
  have raised: "fst (retry_with_backoff self (client self params) s) = Inl e"
    using retry_with_backoff_gives_up [OF assms(3,2)] e(1) by simp
  then have "fst (impl s) = Inl (reraised e)"
    by (auto simp: assms(4) split: prod.splits sum.splits)
  moreover have "exn_cls e \<noteq> ValueError \<and> exn_cls e \<noteq> Exception"
    using e(2) by (auto simp: retryable_def)
  ultimately show ?thesis
    using e raised by (auto simp: reraised_transient)
qed

text \<open>
  C2, as the code has it. When every attempt of the remote call fails with a transient
  error, the retry raises the error of the last attempt unchanged, but the generation
  operations do not hand it on: the caller gets a \<^verbatim>\<open>ValueError\<close> ``Anthropic API error:
  ...'' in place of a rate-limit error and a plain \<^verbatim>\<open>Exception\<close> ``Failed to call
  Anthropic API: ...'' in place of a timeout or connection error, each carrying only the
  message of the last attempt's error. The class of the error raised is never the class
  of the transient error. The dispatcher of a provider without a cache raises the same.
\<close>

theorem transient_error_reraised:
  assumes "str_truthy (api_key self)"
    and "1 \<le> max_retries self"
  shows
    "((\<forall>i<nat (max_retries self).
         \<exists>e. outcome (client self (completion_request_params self request)) i (world s) = Inl e \<and>
             retryable e) \<longrightarrow>
      fst (retry_with_backoff self (client self (completion_request_params self request)) s)
        = outcome (client self (completion_request_params self request))
            (nat (max_retries self) - 1) (world s) \<and>
      (\<exists>e. outcome (client self (completion_request_params self request))
              (nat (max_retries self) - 1) (world s) = Inl e \<and>
           retryable e \<and>
           fst (generate_completion_impl self request s)
             = Inl (if exn_cls e = RateLimitError
                    then Exn ValueError (''Anthropic API error: '' @ exn_str e)
                    else Exn Exception (''Failed to call Anthropic API: '' @ exn_str e)) \<and>
           exn_cls e \<noteq> ValueError \<and> exn_cls e \<noteq> Exception \<and>
           (cache_service self = None \<longrightarrow>
              fst (generate_completion self (constructing (generate_completion_impl self)) request
                     \<lparr>objects = store, outside = s\<rparr>)
                = Inl (if exn_cls e = RateLimitError
                         then Exn ValueError (''Anthropic API error: '' @ exn_str e)
                         else Exn Exception (''Failed to call Anthropic API: '' @ exn_str e))))) \<and>
     ((\<forall>i<nat (max_retries self).
         \<exists>e. outcome (client self (chat_request_params self request)) i (world s) = Inl e \<and>
             retryable e) \<longrightarrow>
      fst (retry_with_backoff self (client self (chat_request_params self request)) s)
        = outcome (client self (chat_request_params self request))
            (nat (max_retries self) - 1) (world s) \<and>
      (\<exists>e. outcome (client self (chat_request_params self request))
              (nat (max_retries self) - 1) (world s) = Inl e \<and>
           retryable e \<and>
           fst (generate_chat_completion_impl self request s)
             = Inl (if exn_cls e = RateLimitError
                    then Exn ValueError (''Anthropic API error: '' @ exn_str e)
                    else Exn Exception (''Failed to call Anthropic API: '' @ exn_str e)) \<and>
           exn_cls e \<noteq> ValueError \<and> exn_cls e \<noteq> Exception \<and>
           (cache_service self = None \<longrightarrow>
              fst (generate_chat_completion self (constructing (generate_chat_completion_impl self))
                     request \<lparr>objects = store, outside = s\<rparr>)
                = Inl (if exn_cls e = RateLimitError
                         then Exn ValueError (''Anthropic API error: '' @ exn_str e)
                         else Exn Exception (''Failed to call Anthropic API: '' @ exn_str e)))))"
proof (intro conjI impI)
  assume h: "\<forall>i<nat (max_retries self).
      \<exists>e. outcome (client self (completion_request_params self request)) i (world s) = Inl e \<and>
          retryable e"
  show "fst (retry_with_backoff self (client self (completion_request_params self request)) s)
      = outcome (client self (completion_request_params self request))
          (nat (max_retries self) - 1) (world s)"
    using h assms(2) by (rule retry_with_backoff_gives_up)
  have impl: "\<And>s. generate_completion_impl self request s
      = (case retry_with_backoff self (client self (completion_request_params self request)) s of
           (Inr response, s') \<Rightarrow> (build_response self response, s')
         | (Inl e, s') \<Rightarrow> (Inl (reraised e), s'))"
    using assms(1) by (simp add: generate_completion_impl_eq)
  from implementation_gives_up [OF assms h, of "generate_completion_impl self request", OF impl]
  obtain e where e:
    "outcome (client self (completion_request_params self request))
       (nat (max_retries self) - 1) (world s) = Inl e"
    "retryable e"
    "fst (generate_completion_impl self request s)
       = Inl (if exn_cls e = RateLimitError
              then Exn ValueError (''Anthropic API error: '' @ exn_str e)
              else Exn Exception (''Failed to call Anthropic API: '' @ exn_str e))"
    "exn_cls e \<noteq> ValueError" "exn_cls e \<noteq> Exception"
    by blast
  have "fst (generate_completion self (constructing (generate_completion_impl self)) request
               \<lparr>objects = store, outside = s\<rparr>)
          = Inl (if exn_cls e = RateLimitError
                         then Exn ValueError (''Anthropic API error: '' @ exn_str e)
                         else Exn Exception (''Failed to call Anthropic API: '' @ exn_str e))"
    if "cache_service self = None"
    using that e(3) constructing_error [of "generate_completion_impl self" request
        "\<lparr>objects = store, outside = s\<rparr>"]
    by (simp add: generate_completion_without_cache)
  with e show "\<exists>e. outcome (client self (completion_request_params self request))
              (nat (max_retries self) - 1) (world s) = Inl e \<and>
           retryable e \<and>
           fst (generate_completion_impl self request s)
             = Inl (if exn_cls e = RateLimitError
                    then Exn ValueError (''Anthropic API error: '' @ exn_str e)
                    else Exn Exception (''Failed to call Anthropic API: '' @ exn_str e)) \<and>
           exn_cls e \<noteq> ValueError \<and> exn_cls e \<noteq> Exception \<and>
           (cache_service self = None \<longrightarrow>
              fst (generate_completion self (constructing (generate_completion_impl self)) request
                     \<lparr>objects = store, outside = s\<rparr>)
                = Inl (if exn_cls e = RateLimitError
                         then Exn ValueError (''Anthropic API error: '' @ exn_str e)
                         else Exn Exception (''Failed to call Anthropic API: '' @ exn_str e)))"
    by (intro exI [of _ e]) simp
next
  assume h: "\<forall>i<nat (max_retries self).
      \<exists>e. outcome (client self (chat_request_params self request)) i (world s) = Inl e \<and>
          retryable e"
  show "fst (retry_with_backoff self (client self (chat_request_params self request)) s)
      = outcome (client self (chat_request_params self request))
          (nat (max_retries self) - 1) (world s)"
    using h assms(2) by (rule retry_with_backoff_gives_up)
  have impl: "\<And>s. generate_chat_completion_impl self request s
      = (case retry_with_backoff self (client self (chat_request_params self request)) s of
           (Inr response, s') \<Rightarrow> (build_response self response, s')
         | (Inl e, s') \<Rightarrow> (Inl (reraised e), s'))"
    using assms(1) by (simp add: generate_chat_completion_impl_eq)
  from implementation_gives_up [OF assms h, of "generate_chat_completion_impl self request", OF impl]
  obtain e where e:
    "outcome (client self (chat_request_params self request))
       (nat (max_retries self) - 1) (world s) = Inl e"
    "retryable e"
    "fst (generate_chat_completion_impl self request s)
       = Inl (if exn_cls e = RateLimitError
              then Exn ValueError (''Anthropic API error: '' @ exn_str e)
              else Exn Exception (''Failed to call Anthropic API: '' @ exn_str e))"
    "exn_cls e \<noteq> ValueError" "exn_cls e \<noteq> Exception"
    by blast
  have "fst (generate_chat_completion self (constructing (generate_chat_completion_impl self))
               request \<lparr>objects = store, outside = s\<rparr>)
          = Inl (if exn_cls e = RateLimitError
                         then Exn ValueError (''Anthropic API error: '' @ exn_str e)
                         else Exn Exception (''Failed to call Anthropic API: '' @ exn_str e))"
    if "cache_service self = None"
    using that e(3) constructing_error [of "generate_chat_completion_impl self" request
        "\<lparr>objects = store, outside = s\<rparr>"]
    by (simp add: generate_chat_completion_without_cache)
  with e show "\<exists>e. outcome (client self (chat_request_params self request))
              (nat (max_retries self) - 1) (world s) = Inl e \<and>
           retryable e \<and>
           fst (generate_chat_completion_impl self request s)
             = Inl (if exn_cls e = RateLimitError
                    then Exn ValueError (''Anthropic API error: '' @ exn_str e)
                    else Exn Exception (''Failed to call Anthropic API: '' @ exn_str e)) \<and>
           exn_cls e \<noteq> ValueError \<and> exn_cls e \<noteq> Exception \<and>
           (cache_service self = None \<longrightarrow>
              fst (generate_chat_completion self (constructing (generate_chat_completion_impl self))
                     request \<lparr>objects = store, outside = s\<rparr>)
                = Inl (if exn_cls e = RateLimitError
                         then Exn ValueError (''Anthropic API error: '' @ exn_str e)
                         else Exn Exception (''Failed to call Anthropic API: '' @ exn_str e)))"
    by (intro exI [of _ e]) simp
qed

lemma three_attempts: "[0..<3] = [0, 1, 2]"
  by (simp add: upt_rec)

theorem transient_error_unchanged_counterexample:
  "fst (generate_completion_impl anthropic_provider (test_request None None)
          \<lparr>world = [Inl rate_limit_error, Inl rate_limit_error, Inl rate_limit_error],
           slept = []\<rparr>)
     = Inl (Exn ValueError ''Anthropic API error: Rate limit exceeded'') \<and>
   Exn ValueError ''Anthropic API error: Rate limit exceeded'' \<noteq> rate_limit_error \<and>
   fst (generate_chat_completion_impl anthropic_provider chat_request
          \<lparr>world = [Inl connection_error, Inl connection_error, Inl connection_error],
           slept = []\<rparr>)
     = Inl (Exn Exception ''Failed to call Anthropic API: Connection error.'') \<and>
   Exn Exception ''Failed to call Anthropic API: Connection error.'' \<noteq> connection_error"
  by (simp add: generate_completion_impl_eq generate_chat_completion_impl_eq
        anthropic_provider_def provider_with_client_def str_truthy_def
        retry_with_backoff_def three_attempts mock_create_def backoff_def
        rate_limit_error_def connection_error_def isinstance_def reraised_def)

theorem transient_error_reraised_witness:
  "str_truthy (api_key anthropic_provider) \<and>
   1 \<le> max_retries anthropic_provider \<and>
   fst (retry_with_backoff anthropic_provider
          (client anthropic_provider
             (completion_request_params anthropic_provider (test_request None None)))
          \<lparr>world = [Inl rate_limit_error, Inl timeout_error, Inl connection_error],
           slept = []\<rparr>)
     = Inl connection_error \<and>
   fst (generate_completion_impl anthropic_provider (test_request None None)
          \<lparr>world = [Inl rate_limit_error, Inl timeout_error, Inl connection_error],
           slept = []\<rparr>)
     = Inl (Exn Exception ''Failed to call Anthropic API: Connection error.'') \<and>
   fst (generate_completion anthropic_provider
          (constructing (generate_completion_impl anthropic_provider)) (test_request None None)
          \<lparr>objects = [],
           outside = \<lparr>world = [Inl rate_limit_error, Inl timeout_error, Inl connection_error],
                      slept = []\<rparr>\<rparr>)
     = Inl (Exn Exception ''Failed to call Anthropic API: Connection error.'')"
proof -
  let ?s = "\<lparr>world = [Inl rate_limit_error, Inl timeout_error, Inl connection_error],
             slept = []\<rparr> :: (exn + anthropic_message) list io"
  let ?params = "completion_request_params anthropic_provider (test_request None None)"
  have h1: "str_truthy (api_key anthropic_provider)"
    by (simp add: anthropic_provider_def provider_with_client_def str_truthy_def)
  have h2: "1 \<le> max_retries anthropic_provider"
    by (simp add: anthropic_provider_def provider_with_client_def)
  have three: "nat (max_retries anthropic_provider) = 3"
    by (simp add: anthropic_provider_def provider_with_client_def)
  have create: "client anthropic_provider = mock_create"
    by (simp add: anthropic_provider_def provider_with_client_def)
  have no_cache: "cache_service anthropic_provider = None"
    by (simp add: anthropic_provider_def provider_with_client_def)
  have transient: "retryable rate_limit_error" "retryable timeout_error"
      "retryable connection_error"
    by (simp_all add: retryable_def rate_limit_error_def timeout_error_def connection_error_def)
  have h3: "\<forall>i<nat (max_retries anthropic_provider).
      \<exists>e. outcome (client anthropic_provider ?params) i (world ?s) = Inl e \<and> retryable e"
  proof (intro allI impI)
    fix i :: nat
    assume "i < nat (max_retries anthropic_provider)"
    then consider "i = 0" | "i = Suc 0" | "i = Suc (Suc 0)"
      unfolding three by linarith
    then show "\<exists>e. outcome (client anthropic_provider ?params) i (world ?s) = Inl e \<and> retryable e"
      by cases (simp_all add: create outcome_def mock_create_def transient)
  qed
  have last: "outcome (client anthropic_provider ?params)
      (nat (max_retries anthropic_provider) - 1) (world ?s) = Inl connection_error"
    unfolding three by (simp add: create outcome_def mock_create_def numeral_2_eq_2)
  have cls: "exn_cls connection_error \<noteq> RateLimitError"
      "exn_str connection_error = ''Connection error.''"
    by (simp_all add: connection_error_def)
  from transient_error_reraised [OF h1 h2, of "test_request None None" ?s "[]"] h3
  have run: "fst (retry_with_backoff anthropic_provider (client anthropic_provider ?params) ?s)
        = outcome (client anthropic_provider ?params)
            (nat (max_retries anthropic_provider) - 1) (world ?s)"
    and "\<exists>e. outcome (client anthropic_provider ?params)
              (nat (max_retries anthropic_provider) - 1) (world ?s) = Inl e \<and>
           retryable e \<and>
           fst (generate_completion_impl anthropic_provider (test_request None None) ?s)
             = Inl (if exn_cls e = RateLimitError
                    then Exn ValueError (''Anthropic API error: '' @ exn_str e)
                    else Exn Exception (''Failed to call Anthropic API: '' @ exn_str e)) \<and>
           exn_cls e \<noteq> ValueError \<and> exn_cls e \<noteq> Exception \<and>
           (cache_service anthropic_provider = None \<longrightarrow>
              fst (generate_completion anthropic_provider
                     (constructing (generate_completion_impl anthropic_provider))
                     (test_request None None) \<lparr>objects = [], outside = ?s\<rparr>)
                = Inl (if exn_cls e = RateLimitError
                         then Exn ValueError (''Anthropic API error: '' @ exn_str e)
                         else Exn Exception (''Failed to call Anthropic API: '' @ exn_str e)))"
    by simp_all
  then have "fst (generate_completion_impl anthropic_provider (test_request None None) ?s)
        = Inl (Exn Exception (''Failed to call Anthropic API: '' @ exn_str connection_error)) \<and>
      fst (generate_completion anthropic_provider
             (constructing (generate_completion_impl anthropic_provider))
             (test_request None None) \<lparr>objects = [], outside = ?s\<rparr>)
        = Inl (Exn Exception (''Failed to call Anthropic API: '' @ exn_str connection_error))"
    using last no_cache cls(1) by auto
  with run last h1 h2 show ?thesis
    by (simp add: cls(2))
qed

subsection \<open>Token usage\<close>

lemma build_response_usage:
  assumes "build_response self reply = Inr r"
  shows "prompt_tokens r = input_tokens reply \<and>
         completion_tokens r = output_tokens reply \<and>
         total_tokens r = input_tokens reply + output_tokens reply \<and>
         usage r = [(''prompt_tokens'', input_tokens reply),
                    (''completion_tokens'', output_tokens reply),
                    (''total_tokens'', input_tokens reply + output_tokens reply)] \<and>
         \<not> is_cached r"
  using assms by (auto simp: build_response_def Let_def split: option.splits)

lemma generate_completion_impl_built:
  assumes "generate_completion_impl self request s = (Inr r, s')"
  shows "\<exists>reply. build_response self reply = Inr r"
  using assms
  by (auto simp: generate_completion_impl_eq split: if_splits prod.splits sum.splits)

lemma generate_chat_completion_impl_built:
  assumes "generate_chat_completion_impl self request s = (Inr r, s')"
  shows "\<exists>reply. build_response self reply = Inr r"
  using assms
  by (auto simp: generate_chat_completion_impl_eq split: if_splits prod.splits sum.splits)

lemma constructing_result:
  assumes "constructing impl request s = (Inr a, s')"
  shows "\<exists>r t. impl request (outside s) = (Inr r, t) \<and> deref s' a = Some r \<and>
           a = length (objects s) \<and> s' = \<lparr>objects = objects s @ [r], outside = t\<rparr>"
proof (cases "impl request (outside s)")
  case (Pair res t)
  with assms obtain r where "res = Inr r"
    by (cases res) (auto simp: constructing_def)
  with Pair assms show ?thesis
    by (auto simp: constructing_def new_object_def deref_def)
qed

text \<open>
  C8. In every response the two implementations return (and so in every response the
  two generation operations of a provider without a cache return), the total is the sum
  of the prompt and completion counters, in the fields and in the \<^verbatim>\<open>usage\<close> dict
  alike; the counters are those of the remote reply and the total is computed from them.
\<close>

theorem usage_total_is_sum:
  "(\<forall>r s'. generate_completion_impl self request s = (Inr r, s') \<or>
            generate_chat_completion_impl self request s = (Inr r, s') \<or>
            cache_service self = None \<and>
              (\<exists>a m. (generate_completion self (constructing (generate_completion_impl self))
                        request \<lparr>objects = store, outside = s\<rparr> = (Inr a, m) \<or>
                      generate_chat_completion self
                        (constructing (generate_chat_completion_impl self))
                        request \<lparr>objects = store, outside = s\<rparr> = (Inr a, m)) \<and>
                     deref m a = Some r) \<longrightarrow>
      total_tokens r = prompt_tokens r + completion_tokens r \<and>
      map_of (usage r) ''prompt_tokens'' = Some (prompt_tokens r) \<and>
      map_of (usage r) ''completion_tokens'' = Some (completion_tokens r) \<and>
      map_of (usage r) ''total_tokens'' = Some (prompt_tokens r + completion_tokens r)) \<and>
   (\<forall>reply r. build_response self reply = Inr r \<longrightarrow>
      prompt_tokens r = input_tokens reply \<and>
      completion_tokens r = output_tokens reply \<and>
      total_tokens r = input_tokens reply + output_tokens reply)"
proof (intro conjI allI impI)
  fix r s'
  assume "generate_completion_impl self request s = (Inr r, s') \<or>
          generate_chat_completion_impl self request s = (Inr r, s') \<or>
          cache_service self = None \<and>
            (\<exists>a m. (generate_completion self (constructing (generate_completion_impl self))
                      request \<lparr>objects = store, outside = s\<rparr> = (Inr a, m) \<or>
                    generate_chat_completion self
                      (constructing (generate_chat_completion_impl self))
                      request \<lparr>objects = store, outside = s\<rparr> = (Inr a, m)) \<and>
                   deref m a = Some r)"
  then consider
      (impl) "generate_completion_impl self request s = (Inr r, s') \<or>
              generate_chat_completion_impl self request s = (Inr r, s')"
    | (completion) a m where "cache_service self = None"
        "generate_completion self (constructing (generate_completion_impl self))
           request \<lparr>objects = store, outside = s\<rparr> = (Inr a, m)" "deref m a = Some r"
    | (chat) a m where "cache_service self = None"
        "generate_chat_completion self (constructing (generate_chat_completion_impl self))
           request \<lparr>objects = store, outside = s\<rparr> = (Inr a, m)" "deref m a = Some r"
    by blast
  then have "\<exists>t. generate_completion_impl self request s = (Inr r, t) \<or>
          generate_chat_completion_impl self request s = (Inr r, t)"
  proof cases
    case impl
    then show ?thesis by blast
  next
    case completion
    then have "constructing (generate_completion_impl self) request
        \<lparr>objects = store, outside = s\<rparr> = (Inr a, m)"
      by (simp add: generate_completion_without_cache)
    from constructing_result [OF this] completion(3) show ?thesis by auto
  next
    case chat
    then have "constructing (generate_chat_completion_impl self) request
        \<lparr>objects = store, outside = s\<rparr> = (Inr a, m)"
      by (simp add: generate_chat_completion_without_cache)
    from constructing_result [OF this] chat(3) show ?thesis by auto
  qed
  then obtain reply where "build_response self reply = Inr r"
    using generate_completion_impl_built generate_chat_completion_impl_built by blast
  then have u: "prompt_tokens r = input_tokens reply \<and>
         completion_tokens r = output_tokens reply \<and>
         total_tokens r = input_tokens reply + output_tokens reply \<and>
         usage r = [(''prompt_tokens'', input_tokens reply),
                    (''completion_tokens'', output_tokens reply),
                    (''total_tokens'', input_tokens reply + output_tokens reply)] \<and>
         \<not> is_cached r"
    by (rule build_response_usage)
  from u show "total_tokens r = prompt_tokens r + completion_tokens r" by simp
  from u show "map_of (usage r) ''prompt_tokens'' = Some (prompt_tokens r)" by simp
  from u show "map_of (usage r) ''completion_tokens'' = Some (completion_tokens r)" by simp
  from u show "map_of (usage r) ''total_tokens'' = Some (prompt_tokens r + completion_tokens r)"
    by simp
next
  fix reply r
  assume b: "build_response self reply = Inr r"
  from build_response_usage [OF b] show "prompt_tokens r = input_tokens reply" by simp
  from build_response_usage [OF b] show "completion_tokens r = output_tokens reply" by simp
  from build_response_usage [OF b]
  show "total_tokens r = input_tokens reply + output_tokens reply" by simp
qed

lemma generate_completion_impl_first_try:
  assumes "str_truthy (api_key self)" and "1 \<le> max_retries self"
    and "client self (completion_request_params self request) (world s) = (Inr reply, w)"
  shows "generate_completion_impl self request s = (build_response self reply, s\<lparr>world := w\<rparr>)"
  using assms(1)
    retry_with_backoff_returns [of "client self (completion_request_params self request)" s reply w self]
    assms(2,3)
  by (simp add: generate_completion_impl_eq)

lemma anthropic_provider_simps:
  "str_truthy (api_key (provider_with_client create))"
  "max_retries (provider_with_client create) = 3"
  "client (provider_with_client create) = create"
  "config (provider_with_client create) = []"
  "model_id (provider_with_client create) = Some ''claude-sonnet-4-5''"
  "cache_service (provider_with_client create) = None"
  by (simp_all add: provider_with_client_def str_truthy_def)

lemma generated_mock_response:
  "generate_completion_impl anthropic_provider (test_request None None)
     \<lparr>world = [Inr mock_response], slept = []\<rparr>
     = (Inr mock_generated, \<lparr>world = [], slept = []\<rparr>)"
proof -
  have "generate_completion_impl anthropic_provider (test_request None None)
          \<lparr>world = [Inr mock_response], slept = []\<rparr>
        = (build_response anthropic_provider mock_response,
           \<lparr>world = [Inr mock_response], slept = []\<rparr>\<lparr>world := []\<rparr>)"
    by (rule generate_completion_impl_first_try)
       (simp_all add: anthropic_provider_def anthropic_provider_simps mock_create_def)
  then show ?thesis
    by (simp add: build_response_def anthropic_provider_def anthropic_provider_simps
          mock_response_def mock_generated_def extract_text_content_def)
qed

theorem usage_total_is_sum_witness:
  "generate_completion_impl anthropic_provider (test_request None None)
     \<lparr>world = [Inr mock_response], slept = []\<rparr>
     = (Inr mock_generated, \<lparr>world = [], slept = []\<rparr>) \<and>
   total_tokens mock_generated = prompt_tokens mock_generated + completion_tokens mock_generated \<and>
   map_of (usage mock_generated) ''total_tokens'' = Some 18"
proof -
  note run = generated_mock_response
  from usage_total_is_sum [of anthropic_provider "test_request None None"
      "\<lparr>world = [Inr mock_response], slept = []\<rparr>"] run
  have "total_tokens mock_generated = prompt_tokens mock_generated + completion_tokens mock_generated \<and>
      map_of (usage mock_generated) ''total_tokens''
        = Some (prompt_tokens mock_generated + completion_tokens mock_generated)"
    by blast
  with run show ?thesis
    by (simp add: mock_generated_def)
qed

subsection \<open>Generation parameters\<close>

lemma logged_call:
  "logged create params (w, sent) = (fst (create params w), (snd (create params w), sent @ [params]))"
  by (simp add: logged_def split: prod.splits)

text \<open>Every attempt of the retry sends the same parameters.\<close>

lemma retry_loop_logged:
  "\<exists>k. snd (world (snd (retry_loop self (logged create params) attempts last_exception s)))
          = snd (world s) @ replicate k params \<and>
        (attempts \<noteq> [] \<longrightarrow> 1 \<le> k)"
proof (induction attempts arbitrary: s last_exception)
  case Nil
  have "snd (world s) = snd (world s) @ replicate 0 params" by simp
  then show ?case by (auto split: option.splits)
next
  case (Cons attempt rest)
  obtain w sent where ws: "world s = (w, sent)" by (cases "world s")
  let ?r = "fst (create params w)"
  let ?w = "(snd (create params w), sent @ [params])"
  have call: "logged create params (world s) = (?r, ?w)"
    by (simp add: ws logged_call)
  show ?case
  proof (cases "final ?r")
    case True
    have "retry_loop self (logged create params) (attempt # rest) last_exception s
            = (?r, s\<lparr>world := ?w\<rparr>)"
      using call True by (rule retry_loop_final)
    then have "snd (world (snd (retry_loop self (logged create params) (attempt # rest)
        last_exception s))) = snd (world s) @ replicate 1 params"
      by (simp add: ws)
    then show ?thesis by blast
  next
    case False
    then obtain e where e: "?r = Inl e" "retryable e"
      by (auto simp: not_final_iff)
    let ?s = "backoff self attempt (s\<lparr>world := ?w\<rparr>)"
    have step: "retry_loop self (logged create params) (attempt # rest) last_exception s
            = retry_loop self (logged create params) rest (Some e) ?s"
      using call e retry_loop_again [of "logged create params" s e ?w self attempt rest last_exception]
      by simp
    from Cons.IH [of "Some e" ?s] obtain k where
      "snd (world (snd (retry_loop self (logged create params) rest (Some e) ?s)))
         = snd (world ?s) @ replicate k params"
      by blast
    then have "snd (world (snd (retry_loop self (logged create params) (attempt # rest)
        last_exception s))) = snd (world s) @ replicate (Suc k) params"
      unfolding step by (simp add: ws replicate_app_Cons_same)
    then show ?thesis by (intro exI [of _ "Suc k"]) simp
  qed
qed

lemma retry_with_backoff_logged:
  assumes "1 \<le> max_retries self"
  shows "\<exists>k\<ge>1. snd (world (snd (retry_with_backoff self (logged create params) s)))
          = snd (world s) @ replicate k params"
proof -
  from assms have "[0..<nat (max_retries self)] \<noteq> []" by simp
  then show ?thesis
    using retry_loop_logged [of self create params "[0..<nat (max_retries self)]" None s]
    by (auto simp: retry_with_backoff_def)
qed

lemma additional_param_eq:
  "additional_param request key
     = (case request_param request key of None \<Rightarrow> PNone | Some v \<Rightarrow> v)"
  by (auto simp: additional_param_def request_param_def dict_get_def split: option.splits)

lemma completion_max_tokens:
  "rp_max_tokens (completion_request_params self request)
     = by_precedence
         (Option.bind (request_param request ''max_tokens'') (\<lambda>v. if truthy v then Some v else None))
         (map_of (config self) ''max_tokens'') (PInt 4096)"
  by (auto simp: completion_request_params_def prepare_request_params_def additional_param_eq
        by_precedence_def py_or_def dict_get_def split: option.splits)

lemma completion_temperature:
  "rp_temperature (completion_request_params self request)
     = Some (by_precedence
         (Option.bind (request_param request ''temperature'') (\<lambda>v. if v \<noteq> PNone then Some v else None))
         (map_of (config self) ''temperature'') (PFloat (7 / 10)))"
  by (auto simp: completion_request_params_def prepare_request_params_def additional_param_eq
        by_precedence_def dict_get_def dict_has_def split: option.splits)

lemma chat_max_tokens:
  "rp_max_tokens (chat_request_params self request)
     = rp_max_tokens (completion_request_params self request)"
  by (simp add: chat_request_params_def completion_request_params_def prepare_request_params_def)

lemma chat_temperature:
  "rp_temperature (chat_request_params self request)
     = rp_temperature (completion_request_params self request)"
  by (simp add: chat_request_params_def completion_request_params_def prepare_request_params_def)

lemma generate_completion_impl_state:
  "str_truthy (api_key self) \<Longrightarrow>
   snd (generate_completion_impl self request s)
     = snd (retry_with_backoff self (client self (completion_request_params self request)) s)"
  by (simp add: generate_completion_impl_eq split: prod.splits sum.splits)

lemma generate_chat_completion_impl_state:
  "str_truthy (api_key self) \<Longrightarrow>
   snd (generate_chat_completion_impl self request s)
     = snd (retry_with_backoff self (client self (chat_request_params self request)) s)"
  by (simp add: generate_chat_completion_impl_eq split: prod.splits sum.splits)

lemma request_fields_not_read:
  "completion_request_params self (request\<lparr>temperature := t, max_tokens := m\<rparr>)
     = completion_request_params self request"
  "chat_request_params self (request\<lparr>temperature := t, max_tokens := m\<rparr>)
     = chat_request_params self request"
  by (auto simp: completion_request_params_def chat_request_params_def additional_param_def
        thinking_param_def format_messages_def extract_system_message_def
        split: option.splits)

text \<open>
  C7, as the code has it. The parameters of every remote call a completion or chat
  completion makes are resolved by precedence, where the explicit per-request value is
  the entry of the request's additional parameters: for the token bound an entry that is
  true (so not 0), for the temperature an entry that is not \<^verbatim>\<open>None\<close>; otherwise the
  value the provider's configuration has under the key; otherwise 4096 and 0.7. The
  request's own \<^verbatim>\<open>temperature\<close> and \<^verbatim>\<open>max_tokens\<close> fields are not read.
\<close>

theorem generation_parameters_by_precedence:
  assumes "str_truthy (api_key self)"
    and "1 \<le> max_retries self"
    and "client self = logged create"
  shows
    "(\<exists>k\<ge>1. snd (world (snd (generate_completion_impl self request s)))
        = snd (world s) @ replicate k (completion_request_params self request)) \<and>
     (\<exists>k\<ge>1. snd (world (snd (generate_chat_completion_impl self request s)))
        = snd (world s) @ replicate k (chat_request_params self request)) \<and>
     rp_max_tokens (completion_request_params self request)
       = by_precedence
           (Option.bind (request_param request ''max_tokens'')
              (\<lambda>v. if truthy v then Some v else None))
           (map_of (config self) ''max_tokens'') (PInt 4096) \<and>
     rp_temperature (completion_request_params self request)
       = Some (by_precedence
           (Option.bind (request_param request ''temperature'')
              (\<lambda>v. if v \<noteq> PNone then Some v else None))
           (map_of (config self) ''temperature'') (PFloat (7 / 10))) \<and>
     rp_max_tokens (chat_request_params self request)
       = rp_max_tokens (completion_request_params self request) \<and>
     rp_temperature (chat_request_params self request)
       = rp_temperature (completion_request_params self request) \<and>
     completion_request_params self (request\<lparr>temperature := t, max_tokens := m\<rparr>)
       = completion_request_params self request \<and>
     chat_request_params self (request\<lparr>temperature := t, max_tokens := m\<rparr>)
       = chat_request_params self request"
proof -
  have "\<exists>k\<ge>1. snd (world (snd (generate_completion_impl self request s)))
        = snd (world s) @ replicate k (completion_request_params self request)"
    using retry_with_backoff_logged [OF assms(2), of create "completion_request_params self request" s]
    by (simp add: generate_completion_impl_state [OF assms(1)] assms(3))
  moreover have "\<exists>k\<ge>1. snd (world (snd (generate_chat_completion_impl self request s)))
        = snd (world s) @ replicate k (chat_request_params self request)"
    using retry_with_backoff_logged [OF assms(2), of create "chat_request_params self request" s]
    by (simp add: generate_chat_completion_impl_state [OF assms(1)] assms(3))
  ultimately show ?thesis
    using completion_max_tokens [of self request] completion_temperature [of self request]
      chat_max_tokens [of self request] chat_temperature [of self request]
      request_fields_not_read
    by blast
qed

lemma logging_provider_simps:
  "str_truthy (api_key logging_provider)"
  "1 \<le> max_retries logging_provider"
  "client logging_provider = logged mock_create"
  "config logging_provider = []"
  by (simp_all add: logging_provider_def anthropic_provider_simps)

lemma logging_provider_first_try:
  "generate_completion_impl logging_provider request
     \<lparr>world = ([Inr reply], []), slept = []\<rparr>
     = (build_response logging_provider reply,
        \<lparr>world = ([], [completion_request_params logging_provider request]), slept = []\<rparr>)"
proof -
  have "generate_completion_impl logging_provider request
          \<lparr>world = ([Inr reply], []), slept = []\<rparr>
        = (build_response logging_provider reply,
           \<lparr>world = ([Inr reply], []), slept = []\<rparr>
             \<lparr>world := ([], [completion_request_params logging_provider request])\<rparr>)"
    by (rule generate_completion_impl_first_try)
       (simp_all add: logging_provider_simps logged_call mock_create_def)
  then show ?thesis by simp
qed

theorem explicit_fields_counterexample:
  "temperature ((test_request (Some 0) None)\<lparr>max_tokens := Some 100\<rparr>) = Some 0 \<and>
   max_tokens ((test_request (Some 0) None)\<lparr>max_tokens := Some 100\<rparr>) = Some 100 \<and>
   map (\<lambda>ps. (rp_max_tokens ps, rp_temperature ps))
     (snd (world (snd (generate_completion_impl logging_provider
        ((test_request (Some 0) None)\<lparr>max_tokens := Some 100\<rparr>)
        \<lparr>world = ([Inr mock_response], []), slept = []\<rparr>))))
     = [(PInt 4096, Some (PFloat (7 / 10)))] \<and>
   map rp_max_tokens
     (snd (world (snd (generate_completion_impl logging_provider
        (test_request None (Some [(''max_tokens'', PInt 0)]))
        \<lparr>world = ([Inr mock_response], []), slept = []\<rparr>))))
     = [PInt 4096]"
  by (simp add: logging_provider_first_try test_request_def completion_max_tokens
        completion_temperature logging_provider_simps request_param_def by_precedence_def)

theorem generation_parameters_by_precedence_witness:
  "str_truthy (api_key logging_provider) \<and>
   1 \<le> max_retries logging_provider \<and>
   client logging_provider = logged mock_create \<and>
   (\<exists>k\<ge>1. snd (world (snd (generate_completion_impl logging_provider
        (test_request None (Some [(''max_tokens'', PInt 100), (''temperature'', PFloat 0)]))
        \<lparr>world = ([Inr mock_response], []), slept = []\<rparr>)))
      = [] @ replicate k (completion_request_params logging_provider
        (test_request None (Some [(''max_tokens'', PInt 100), (''temperature'', PFloat 0)])))) \<and>
   rp_max_tokens (completion_request_params logging_provider
        (test_request None (Some [(''max_tokens'', PInt 100), (''temperature'', PFloat 0)])))
     = PInt 100 \<and>
   rp_temperature (completion_request_params logging_provider
        (test_request None (Some [(''max_tokens'', PInt 100), (''temperature'', PFloat 0)])))
     = Some (PFloat 0)"
proof -
  let ?r = "test_request None (Some [(''max_tokens'', PInt 100), (''temperature'', PFloat 0)])"
  let ?s = "\<lparr>world = ([Inr mock_response], []), slept = []\<rparr>
              :: ((exn + anthropic_message) list \<times> request_params list) io"
  note h = logging_provider_simps(1,2,3)
  have explicit: "request_param ?r ''max_tokens'' = Some (PInt 100)"
      "request_param ?r ''temperature'' = Some (PFloat 0)"
    by (simp_all add: request_param_def test_request_def)
  from generation_parameters_by_precedence [OF h, of ?r ?s]
  have "(\<exists>k\<ge>1. snd (world (snd (generate_completion_impl logging_provider ?r ?s)))
          = snd (world ?s) @ replicate k (completion_request_params logging_provider ?r)) \<and>
        rp_max_tokens (completion_request_params logging_provider ?r) = PInt 100 \<and>
        rp_temperature (completion_request_params logging_provider ?r) = Some (PFloat 0)"
    by (simp add: explicit by_precedence_def)
  with h show ?thesis by simp
qed

subsection \<open>The dispatcher and the cache\<close>

lemma cache_lookup_attached:
  "cache_service self = Some cs \<Longrightarrow> is_cacheable self request \<Longrightarrow>
   cache_lookup self request s = get_cached_response cs request (provider_name self) s"
  by (simp add: cache_lookup_def)

lemma cache_store_attached:
  "cache_service self = Some cs \<Longrightarrow> is_cacheable self request \<Longrightarrow>
   cache_store self request response s
     = cache_response cs request response (provider_name self) s"
  by (simp add: cache_store_def)

lemma generate_chat_completion_eq:
  "generate_chat_completion self impl request s = generate_completion self impl request s"
  by (simp add: generate_chat_completion_def generate_completion_def)

lemma generate_completion_read_error:
  assumes "cache_service self = Some cs" and "is_cacheable self request"
    and "get_cached_response cs request (provider_name self) s = (Inl e, s1)"
  shows "generate_completion self impl request s = (Inl e, s1)"
  using assms by (simp add: generate_completion_def cache_lookup_attached)

lemma generate_completion_hit:
  assumes "cache_service self = Some cs" and "is_cacheable self request"
    and "get_cached_response cs request (provider_name self) s = (Inr (Some a), s1)"
  shows "generate_completion self impl request s = (Inr a, set_is_cached a True s1)"
  using assms by (simp add: generate_completion_def cache_lookup_attached)

lemma generate_completion_miss:
  assumes "cache_service self = Some cs" and "is_cacheable self request"
    and "get_cached_response cs request (provider_name self) s = (Inr None, s1)"
    and "impl request s1 = (Inr r, s2)"
    and "cache_response cs request r (provider_name self) s2 = (u, s3)"
  shows "generate_completion self impl request s
           = ((case u of Inl e \<Rightarrow> Inl e | Inr _ \<Rightarrow> Inr r), s3)"
  using assms
  by (simp add: generate_completion_def cache_lookup_attached cache_store_attached
        split: sum.splits)

text \<open>
  C1, as the code has it. With a cache attached and a cacheable request, an error the
  cache raises is not caught: when the read raises, the dispatcher raises that error
  and the implementation is not invoked (the outcome is the same for every
  implementation); when the write raises after a generation, the dispatcher raises that
  error and the generated response is not returned. When neither raises, a miss is
  followed by the generation and the fresh response is returned as it is.
\<close>

theorem cache_errors_propagate:
  assumes "cache_service self = Some cs" and "is_cacheable self request"
  shows
    "(\<forall>e s1. get_cached_response cs request (provider_name self) s = (Inl e, s1) \<longrightarrow>
        (\<forall>impl. generate_completion self impl request s = (Inl e, s1) \<and>
                generate_chat_completion self impl request s = (Inl e, s1))) \<and>
     (\<forall>s1 r s2 e s3.
        get_cached_response cs request (provider_name self) s = (Inr None, s1) \<and>
        impl request s1 = (Inr r, s2) \<and>
        cache_response cs request r (provider_name self) s2 = (Inl e, s3) \<longrightarrow>
        generate_completion self impl request s = (Inl e, s3) \<and>
        generate_chat_completion self impl request s = (Inl e, s3)) \<and>
     (\<forall>s1 r s2 u s3.
        get_cached_response cs request (provider_name self) s = (Inr None, s1) \<and>
        impl request s1 = (Inr r, s2) \<and>
        cache_response cs request r (provider_name self) s2 = (Inr u, s3) \<longrightarrow>
        generate_completion self impl request s = (Inr r, s3) \<and>
        generate_chat_completion self impl request s = (Inr r, s3))"
proof (intro conjI allI impI)
  fix e s1 impl'
  assume "get_cached_response cs request (provider_name self) s = (Inl e, s1)"
  then have "generate_completion self impl' request s = (Inl e, s1)"
    using assms by (intro generate_completion_read_error)
  then show "generate_completion self impl' request s = (Inl e, s1)"
    and "generate_chat_completion self impl' request s = (Inl e, s1)"
    by (simp_all add: generate_chat_completion_eq)
next
  fix s1 r s2 e s3
  assume h: "get_cached_response cs request (provider_name self) s = (Inr None, s1) \<and>
        impl request s1 = (Inr r, s2) \<and>
        cache_response cs request r (provider_name self) s2 = (Inl e, s3)"
  then have "generate_completion self impl request s
      = ((case Inl e of Inl e \<Rightarrow> Inl e | Inr (_::unit) \<Rightarrow> Inr r), s3)"
    using assms by (intro generate_completion_miss) auto
  then show "generate_completion self impl request s = (Inl e, s3)"
    and "generate_chat_completion self impl request s = (Inl e, s3)"
    by (simp_all add: generate_chat_completion_eq)
next
  fix s1 r s2 u s3
  assume h: "get_cached_response cs request (provider_name self) s = (Inr None, s1) \<and>
        impl request s1 = (Inr r, s2) \<and>
        cache_response cs request r (provider_name self) s2 = (Inr u, s3)"
  then have "generate_completion self impl request s
      = ((case Inr u of Inl e \<Rightarrow> Inl e | Inr (_::unit) \<Rightarrow> Inr r), s3)"
    using assms by (intro generate_completion_miss) auto
  then show "generate_completion self impl request s = (Inr r, s3)"
    and "generate_chat_completion self impl request s = (Inr r, s3)"
    by (simp_all add: generate_chat_completion_eq)
qed

lemma cached_provider_simps:
  "cache_service (cached_provider cs) = Some cs"
  "provider_name (cached_provider cs) = ''anthropic''"
  "is_cacheable (cached_provider cs) (test_request (Some 0) None)"
  by (simp_all add: cached_provider_def is_cacheable_def test_request_def
        has_non_repeatable_param_def dict_get_def)

lemma constructing_counted_test_impl:
  "constructing (\<lambda>request. counted (test_impl request)) request
     \<lparr>objects = store, outside = (t, n)\<rparr>
     = (Inr (length store), \<lparr>objects = store @ [generated_response], outside = (t, Suc n)\<rparr>)"
  by (simp add: constructing_def counted_def test_impl_def new_object_def)

theorem cache_error_counterexample:
  "generate_completion (cached_provider (beside_counter broken_cache))
     (constructing (\<lambda>request. counted (test_impl request))) (test_request (Some 0) None)
     \<lparr>objects = [], outside = ((), 0)\<rparr>
     = (Inl cache_error, \<lparr>objects = [], outside = ((), 0)\<rparr>) \<and>
   generate_completion (cached_provider (beside_counter read_only_cache))
     (constructing (\<lambda>request. counted (test_impl request))) (test_request (Some 0) None)
     \<lparr>objects = [], outside = ((), 0)\<rparr>
     = (Inl cache_error, \<lparr>objects = [generated_response], outside = ((), 1)\<rparr>) \<and>
   test_impl (test_request (Some 0) None) () = (Inr generated_response, ())"
  by (simp add: generate_completion_def cache_lookup_def cache_store_def cached_provider_simps
        beside_counter_def with_counter_def without_counter_def broken_cache_def
        read_only_cache_def constructing_counted_test_impl test_impl_def)

theorem cache_errors_propagate_witness:
  "cache_service (cached_provider (beside_counter broken_cache))
     = Some (beside_counter broken_cache) \<and>
   is_cacheable (cached_provider (beside_counter broken_cache)) (test_request (Some 0) None) \<and>
   generate_completion (cached_provider (beside_counter broken_cache))
     (constructing (\<lambda>request. counted (test_impl request))) (test_request (Some 0) None)
     \<lparr>objects = [], outside = ((), 0)\<rparr>
     = (Inl cache_error, \<lparr>objects = [], outside = ((), 0)\<rparr>) \<and>
   generate_completion (cached_provider (beside_counter read_only_cache))
     (constructing (\<lambda>request. counted (test_impl request))) (test_request (Some 0) None)
     \<lparr>objects = [], outside = ((), 0)\<rparr>
     = (Inl cache_error, \<lparr>objects = [generated_response], outside = ((), 1)\<rparr>) \<and>
   generate_completion (cached_provider (beside_counter reference_cache))
     (constructing (\<lambda>request. counted (test_impl request))) (test_request (Some 0) None)
     \<lparr>objects = [], outside = ([], 0)\<rparr>
     = (Inr 0,
        \<lparr>objects = [generated_response],
         outside = ([((test_request (Some 0) None, ''anthropic''), 0)], 1)\<rparr>)"
proof -
  let ?rq = "test_request (Some 0) None"
  let ?impl = "constructing (\<lambda>request. counted (test_impl request))"
  have rd: "get_cached_response (beside_counter broken_cache) ?rq
      (provider_name (cached_provider (beside_counter broken_cache)))
      \<lparr>objects = [], outside = ((), 0)\<rparr>
      = (Inl cache_error, \<lparr>objects = [], outside = ((), 0)\<rparr>)"
    by (simp add: beside_counter_def broken_cache_def with_counter_def without_counter_def)
  have wr: "get_cached_response (beside_counter read_only_cache) ?rq
        (provider_name (cached_provider (beside_counter read_only_cache)))
        \<lparr>objects = [], outside = ((), 0)\<rparr>
        = (Inr None, \<lparr>objects = [], outside = ((), 0)\<rparr>) \<and>
      ?impl ?rq \<lparr>objects = [], outside = ((), 0)\<rparr>
        = (Inr 0, \<lparr>objects = [generated_response], outside = ((), 1)\<rparr>) \<and>
      cache_response (beside_counter read_only_cache) ?rq 0
        (provider_name (cached_provider (beside_counter read_only_cache)))
        \<lparr>objects = [generated_response], outside = ((), 1)\<rparr>
        = (Inl cache_error, \<lparr>objects = [generated_response], outside = ((), 1)\<rparr>)"
    by (simp add: beside_counter_def read_only_cache_def with_counter_def without_counter_def
          constructing_counted_test_impl)
  have fresh: "get_cached_response (beside_counter reference_cache) ?rq
        (provider_name (cached_provider (beside_counter reference_cache)))
        \<lparr>objects = [], outside = ([], 0)\<rparr>
        = (Inr None, \<lparr>objects = [], outside = ([], 0)\<rparr>) \<and>
      ?impl ?rq \<lparr>objects = [], outside = ([], 0)\<rparr>
        = (Inr 0, \<lparr>objects = [generated_response], outside = ([], 1)\<rparr>) \<and>
      cache_response (beside_counter reference_cache) ?rq 0
        (provider_name (cached_provider (beside_counter reference_cache)))
        \<lparr>objects = [generated_response], outside = ([], 1)\<rparr>
        = (Inr (), \<lparr>objects = [generated_response],
                    outside = ([((?rq, ''anthropic''), 0)], 1)\<rparr>)"
    by (simp add: beside_counter_def reference_cache_def with_counter_def without_counter_def
          constructing_counted_test_impl cached_provider_simps)
  from cache_errors_propagate [OF cached_provider_simps(1) cached_provider_simps(3),
      of "beside_counter broken_cache" "\<lparr>objects = [], outside = ((), 0)\<rparr>" ?impl] rd
  have 1: "generate_completion (cached_provider (beside_counter broken_cache)) ?impl ?rq
      \<lparr>objects = [], outside = ((), 0)\<rparr>
      = (Inl cache_error, \<lparr>objects = [], outside = ((), 0)\<rparr>)"
    by blast
  from cache_errors_propagate [OF cached_provider_simps(1) cached_provider_simps(3),
      of "beside_counter read_only_cache" "\<lparr>objects = [], outside = ((), 0)\<rparr>" ?impl] wr
  have 2: "generate_completion (cached_provider (beside_counter read_only_cache)) ?impl ?rq
      \<lparr>objects = [], outside = ((), 0)\<rparr>
      = (Inl cache_error, \<lparr>objects = [generated_response], outside = ((), 1)\<rparr>)"
    by blast
  from cache_errors_propagate [OF cached_provider_simps(1) cached_provider_simps(3),
      of "beside_counter reference_cache" "\<lparr>objects = [], outside = ([], 0)\<rparr>" ?impl] fresh
  have 3: "generate_completion (cached_provider (beside_counter reference_cache)) ?impl ?rq
      \<lparr>objects = [], outside = ([], 0)\<rparr>
      = (Inr 0, \<lparr>objects = [generated_response],
                 outside = ([((?rq, ''anthropic''), 0)], 1)\<rparr>)"
    by blast
  from 1 2 3 show ?thesis
    by (simp add: cached_provider_simps)
qed

subsection \<open>The cache round trip\<close>

lemma without_counter_with_counter [simp]: "without_counter (with_counter s n) = s"
  by (simp add: without_counter_def with_counter_def)

lemma outside_with_counter [simp]: "outside (with_counter s n) = (outside s, n)"
  by (simp add: with_counter_def)

lemma objects_with_counter [simp]: "objects (with_counter s n) = objects s"
  by (simp add: with_counter_def)

lemma deref_with_counter [simp]: "deref (with_counter s n) a = deref s a"
  by (simp add: deref_def)

lemma set_is_cached_with_counter:
  "set_is_cached a flag (with_counter s n) = with_counter (set_is_cached a flag s) n"
  by (simp add: set_is_cached_def with_counter_def)

lemma deref_set_is_cached:
  "deref (set_is_cached a flag s) b
     = (if b = a then map_option (\<lambda>r. r\<lparr>is_cached := flag\<rparr>) (deref s a) else deref s b)"
  by (simp add: deref_def set_is_cached_def)

lemma beside_counter_get:
  "get_cached_response (beside_counter cs) request name (with_counter s n)
     = (fst (get_cached_response cs request name s),
        with_counter (snd (get_cached_response cs request name s)) n)"
  by (simp add: beside_counter_def split: prod.splits)

lemma beside_counter_put:
  "cache_response (beside_counter cs) request response name (with_counter s n)
     = (fst (cache_response cs request response name s),
        with_counter (snd (cache_response cs request response name s)) n)"
  by (simp add: beside_counter_def split: prod.splits)

lemma constructing_counted:
  assumes "impl request (outside s) = (Inr r, t)"
  shows "constructing (\<lambda>request. counted (impl request)) request (with_counter s n)
           = (Inr (length (objects s)),
              with_counter \<lparr>objects = objects s @ [r], outside = t\<rparr> (Suc n))"
  using assms by (simp add: constructing_def counted_def new_object_def with_counter_def)

text \<open>
  C5, as the code has it. A cacheable request is sent twice through the dispatcher of a
  provider whose cache holds nothing for it at first and, once given the response, hands
  back on the next read an object with that response's content. The implementation is
  invoked exactly once in the two calls. The first call returns the object the
  implementation built, which the dispatcher hands to the cache as it was built and
  returns as the cache left it (so with the cached flag false when it is freshly built,
  as \<open>build_response\<close> builds it, and the cache does not change it). The second call
  returns the object the cache handed back, with the cached flag set true on that very
  object, and with the content of the first response. When the cache hands back the
  object it was given, the two responses are one object and the first response has the
  flag true from then on; when it hands back another object, the first response is as
  the cache left it.
\<close>

theorem cache_round_trip:
  assumes "cache_service self = Some (beside_counter cs)"
    and "is_cacheable self request"
    and "get_cached_response cs request (provider_name self) s0 = (Inr None, s1)"
    and "impl request (outside s1) = (Inr r, t)"
    and "a = length (objects s1)"
    and "cache_response cs request a (provider_name self)
           \<lparr>objects = objects s1 @ [r], outside = t\<rparr> = (Inr (), s3)"
    and "get_cached_response cs request (provider_name self) s3 = (Inr (Some b), s4)"
    and "deref s4 b = Some r'"
    and "content r' = content r"
  shows
    "generate_completion self (constructing (\<lambda>request. counted (impl request))) request
       (with_counter s0 0) = (Inr a, with_counter s3 1) \<and>
     deref \<lparr>objects = objects s1 @ [r], outside = t\<rparr> a = Some r \<and>
     deref (with_counter s3 1) a = deref s3 a \<and>
     generate_completion self (constructing (\<lambda>request. counted (impl request))) request
       (with_counter s3 1) = (Inr b, with_counter (set_is_cached b True s4) 1) \<and>
     deref (with_counter (set_is_cached b True s4) 1) b = Some (r'\<lparr>is_cached := True\<rparr>) \<and>
     is_cached (r'\<lparr>is_cached := True\<rparr>) \<and>
     content (r'\<lparr>is_cached := True\<rparr>) = content r \<and>
     (b = a \<longrightarrow>
        deref (with_counter (set_is_cached b True s4) 1) a = Some (r'\<lparr>is_cached := True\<rparr>)) \<and>
     (b \<noteq> a \<longrightarrow> deref (with_counter (set_is_cached b True s4) 1) a = deref s4 a) \<and>
     generate_chat_completion self (constructing (\<lambda>request. counted (impl request))) request
       (with_counter s0 0) = (Inr a, with_counter s3 1) \<and>
     generate_chat_completion self (constructing (\<lambda>request. counted (impl request))) request
       (with_counter s3 1) = (Inr b, with_counter (set_is_cached b True s4) 1) \<and>
     (build_response p reply = Inr r \<longrightarrow> \<not> is_cached r)"
proof -
  let ?impl = "constructing (\<lambda>request. counted (impl request))"
  have miss: "get_cached_response (beside_counter cs) request (provider_name self)
      (with_counter s0 0) = (Inr None, with_counter s1 0)"
    by (simp add: beside_counter_get assms(3))
  have gen: "?impl request (with_counter s1 0)
      = (Inr a, with_counter \<lparr>objects = objects s1 @ [r], outside = t\<rparr> 1)"
    using constructing_counted [where impl = impl and n = 0, OF assms(4)]
    by (simp add: assms(5))
  have put: "cache_response (beside_counter cs) request a (provider_name self)
      (with_counter \<lparr>objects = objects s1 @ [r], outside = t\<rparr> 1) = (Inr (), with_counter s3 1)"
    by (simp add: beside_counter_put assms(6))
  have hit: "get_cached_response (beside_counter cs) request (provider_name self)
      (with_counter s3 1) = (Inr (Some b), with_counter s4 1)"
    by (simp add: beside_counter_get assms(7))
  have "generate_completion self ?impl request (with_counter s0 0)
      = ((case Inr () of Inl e \<Rightarrow> Inl e | Inr (_::unit) \<Rightarrow> Inr a), with_counter s3 1)"
    using assms(1,2) miss gen put by (rule generate_completion_miss)
  then have first: "generate_completion self ?impl request (with_counter s0 0)
      = (Inr a, with_counter s3 1)"
    by simp
  have built_object: "deref \<lparr>objects = objects s1 @ [r], outside = t\<rparr> a = Some r"
    by (simp add: deref_def assms(5))
  have "generate_completion self ?impl request (with_counter s3 1)
      = (Inr b, set_is_cached b True (with_counter s4 1))"
    using assms(1,2) hit by (rule generate_completion_hit)
  then have second: "generate_completion self ?impl request (with_counter s3 1)
      = (Inr b, with_counter (set_is_cached b True s4) 1)"
    by (simp add: set_is_cached_with_counter)
  have flagged: "deref (with_counter (set_is_cached b True s4) 1) b
      = Some (r'\<lparr>is_cached := True\<rparr>)"
    by (simp add: deref_set_is_cached assms(8))
  have other: "deref (with_counter (set_is_cached b True s4) 1) a = deref s4 a" if "b \<noteq> a"
    using that by (simp add: deref_set_is_cached)
  have built: "\<not> is_cached r" if "build_response p reply = Inr r"
    using build_response_usage [OF that] by simp
  from first second built_object flagged other built assms(9) show ?thesis
    by (auto simp: generate_chat_completion_eq)
qed

theorem shared_response_counterexample:
  "generate_completion (cached_provider (beside_counter reference_cache))
     (constructing (\<lambda>request. counted (test_impl request))) (test_request (Some 0) None)
     \<lparr>objects = [], outside = ([], 0)\<rparr>
     = (Inr 0,
        \<lparr>objects = [generated_response],
         outside = ([((test_request (Some 0) None, ''anthropic''), 0)], 1)\<rparr>) \<and>
   \<not> is_cached generated_response \<and>
   generate_completion (cached_provider (beside_counter reference_cache))
     (constructing (\<lambda>request. counted (test_impl request))) (test_request (Some 0) None)
     \<lparr>objects = [generated_response],
      outside = ([((test_request (Some 0) None, ''anthropic''), 0)], 1)\<rparr>
     = (Inr 0,
        \<lparr>objects = [generated_response\<lparr>is_cached := True\<rparr>],
         outside = ([((test_request (Some 0) None, ''anthropic''), 0)], 1)\<rparr>) \<and>
   deref \<lparr>objects = [generated_response\<lparr>is_cached := True\<rparr>],
          outside = ([((test_request (Some 0) None, ''anthropic''), 0 :: nat)], 1 :: nat)\<rparr> 0
     = Some (generated_response\<lparr>is_cached := True\<rparr>) \<and>
   is_cached (generated_response\<lparr>is_cached := True\<rparr>)"
  by (simp add: generate_completion_def cache_lookup_def cache_store_def cached_provider_simps
        beside_counter_def with_counter_def without_counter_def reference_cache_def
        constructing_counted_test_impl set_is_cached_def deref_def generated_response_def)

theorem cache_round_trip_witness:
  "generate_completion (cached_provider (beside_counter copying_cache))
     (constructing (\<lambda>request. counted (test_impl request))) (test_request (Some 0) None)
     \<lparr>objects = [], outside = ([], 0)\<rparr>
     = (Inr 0,
        \<lparr>objects = [generated_response],
         outside = ([((test_request (Some 0) None, ''anthropic''), generated_response)], 1)\<rparr>) \<and>
   generate_completion (cached_provider (beside_counter copying_cache))
     (constructing (\<lambda>request. counted (test_impl request))) (test_request (Some 0) None)
     \<lparr>objects = [generated_response],
      outside = ([((test_request (Some 0) None, ''anthropic''), generated_response)], 1)\<rparr>
     = (Inr 1,
        \<lparr>objects = [generated_response, generated_response\<lparr>is_cached := True\<rparr>],
         outside = ([((test_request (Some 0) None, ''anthropic''), generated_response)], 1)\<rparr>) \<and>
   content (generated_response\<lparr>is_cached := True\<rparr>) = ''generated'' \<and>
   \<not> is_cached generated_response"
proof -
  let ?rq = "test_request (Some 0) None"
  let ?p = "cached_provider (beside_counter copying_cache)"
  let ?kept = "[((?rq, ''anthropic''), generated_response)]"
  let ?s0 = "\<lparr>objects = [], outside = []\<rparr>
    :: ((AIRequestBase \<times> string) \<times> AIResponse) list memory"
  let ?s3 = "\<lparr>objects = [generated_response], outside = ?kept\<rparr>"
  let ?s4 = "\<lparr>objects = [generated_response, generated_response], outside = ?kept\<rparr>"
  have h1: "cache_service ?p = Some (beside_counter copying_cache)"
    by (rule cached_provider_simps)
  have h2: "is_cacheable ?p ?rq"
    by (rule cached_provider_simps)
  have h3: "get_cached_response copying_cache ?rq (provider_name ?p) ?s0 = (Inr None, ?s0)"
    by (simp add: copying_cache_def)
  have h4: "test_impl ?rq (outside ?s0) = (Inr generated_response, [])"
    by (simp add: test_impl_def)
  have h5: "(0::nat) = length (objects ?s0)"
    by simp
  have h6: "cache_response copying_cache ?rq 0 (provider_name ?p)
      \<lparr>objects = objects ?s0 @ [generated_response], outside = []\<rparr> = (Inr (), ?s3)"
    by (simp add: copying_cache_def cached_provider_simps deref_def)
  have h8: "get_cached_response copying_cache ?rq (provider_name ?p) ?s3 = (Inr (Some 1), ?s4)"
    by (simp add: copying_cache_def cached_provider_simps new_object_def)
  have h9: "deref ?s4 1 = Some generated_response"
    by (simp add: deref_def)
  have h10: "content generated_response = content generated_response"
    by simp
  from cache_round_trip [where impl = test_impl, OF h1 h2 h3 h4 h5 h6 h8 h9 h10]
  show ?thesis
    by (simp add: with_counter_def set_is_cached_def generated_response_def)
qed

end
